theory Spec2Isabelle
  imports Complex_Main "HOL-Library.Multiset"
begin

section \<open>Python values, exceptions and the HTTP layer\<close>

text \<open>
  The clients exchange JSON with the exchanges. A parsed payload is a value of \<open>json\<close>;
  Python's \<open>None\<close> is \<open>JNull\<close>, a \<open>str\<close> is \<open>JStr\<close>, a \<open>dict\<close> is \<open>JObj\<close> (an association
  list, keys taken to be distinct), a \<open>list\<close> is \<open>JArr\<close>. Floats are modelled as reals: the
  properties below are about control flow and comparison with zero, not about rounding.
\<close>

datatype json =
    JNull
  | JBool bool
  | JNum real
  | JStr string
  | JArr "json list"
  | JObj "(string \<times> json) list"

datatype exn =
    RequestException string
  | KeyError
  | TypeError
  | ValueError
  | AttributeError
  | IndexError

text \<open>
  One HTTP exchange, as \<open>requests.get\<close>/\<open>requests.post\<close> see it: either the call itself raises a
  \<open>RequestException\<close> (connection refused, timeout, ...) or a response with a status code
  and a body arrives; the body parses as JSON or it does not. A network maps each request to
  its outcome: within one operation of a client the same request has the same outcome.
\<close>

datatype body = JsonBody json | NotJson

datatype http = Refused string | Reply nat body

datatype request = GET string | POST string "string list option"

type_synonym network = "request \<Rightarrow> http"

text \<open>
  \<open>float(s)\<close> on a \<open>str\<close> is Python's own parser; it is a parameter \<open>pf\<close> of the model
  (\<open>None\<close> stands for \<open>ValueError\<close>).
\<close>

type_synonym float_parser = "string \<Rightarrow> real option"

fun py_float :: "float_parser \<Rightarrow> json \<Rightarrow> exn + real" where
  "py_float pf (JNum r) = Inr r"
| "py_float pf (JBool b) = Inr (if b then 1 else 0)"
| "py_float pf (JStr s) = (case pf s of None \<Rightarrow> Inl ValueError | Some r \<Rightarrow> Inr r)"
| "py_float pf JNull = Inl TypeError"
| "py_float pf (JArr xs) = Inl TypeError"
| "py_float pf (JObj kvs) = Inl TypeError"

text \<open>Truth value of a Python object, as \<open>if data:\<close> tests it.\<close>

fun truthy :: "json \<Rightarrow> bool" where
  "truthy JNull = False"
| "truthy (JBool b) = b"
| "truthy (JNum r) = (r \<noteq> 0)"
| "truthy (JStr s) = (s \<noteq> [])"
| "truthy (JArr xs) = (xs \<noteq> [])"
| "truthy (JObj kvs) = (kvs \<noteq> [])"

text \<open>\<open>d.get(k, default)\<close>: only a \<open>dict\<close> has the method.\<close>

fun py_get :: "json \<Rightarrow> string \<Rightarrow> json \<Rightarrow> exn + json" where
  "py_get (JObj kvs) k dflt = Inr (case map_of kvs k of None \<Rightarrow> dflt | Some v \<Rightarrow> v)"
| "py_get _ k dflt = Inl AttributeError"

text \<open>\<open>d[k]\<close> with a string key.\<close>

fun subscript :: "json \<Rightarrow> string \<Rightarrow> exn + json" where
  "subscript (JObj kvs) k = (case map_of kvs k of None \<Rightarrow> Inl KeyError | Some v \<Rightarrow> Inr v)"
| "subscript _ k = Inl TypeError"

text \<open>\<open>data[0]\<close>.\<close>

fun subscript0 :: "json \<Rightarrow> exn + json" where
  "subscript0 (JArr (x # xs)) = Inr x"
| "subscript0 (JArr []) = Inl IndexError"
| "subscript0 (JStr (c # s)) = Inr (JStr [c])"
| "subscript0 (JStr []) = Inl IndexError"
| "subscript0 (JObj kvs) = Inl KeyError"
| "subscript0 _ = Inl TypeError"

text \<open>\<open>len(data)\<close>.\<close>

fun py_len :: "json \<Rightarrow> exn + nat" where
  "py_len (JStr s) = Inr (length s)"
| "py_len (JArr xs) = Inr (length xs)"
| "py_len (JObj kvs) = Inr (length kvs)"
| "py_len _ = Inl TypeError"

text \<open>\<open>for x in data\<close>: a list yields its elements, a dict its keys, a str its characters.\<close>

fun py_iter :: "json \<Rightarrow> exn + json list" where
  "py_iter (JArr xs) = Inr xs"
| "py_iter (JObj kvs) = Inr (map (\<lambda>kv. JStr (fst kv)) kvs)"
| "py_iter (JStr s) = Inr (map (\<lambda>c. JStr [c]) s)"
| "py_iter _ = Inl TypeError"

subsection \<open>Exceptions in sequence\<close>

text \<open>A raised exception ends the computation; \<open>and_then\<close> chains two steps and
  \<open>try_map\<close> is a comprehension whose element expression may raise.\<close>

definition and_then :: "exn + 'a \<Rightarrow> ('a \<Rightarrow> exn + 'b) \<Rightarrow> exn + 'b" where
  "and_then r f = (case r of Inl e \<Rightarrow> Inl e | Inr x \<Rightarrow> f x)"

fun try_map :: "('a \<Rightarrow> exn + 'b) \<Rightarrow> 'a list \<Rightarrow> exn + 'b list" where
  "try_map f [] = Inr []"
| "try_map f (x # xs) =
     (case f x of
        Inl e \<Rightarrow> Inl e
      | Inr y \<Rightarrow> (case try_map f xs of Inl e \<Rightarrow> Inl e | Inr ys \<Rightarrow> Inr (y # ys)))"

text \<open>A comprehension with a condition: \<open>f x = Inr None\<close> drops the element.\<close>

fun try_filter_map :: "('a \<Rightarrow> exn + 'b option) \<Rightarrow> 'a list \<Rightarrow> exn + 'b list" where
  "try_filter_map f [] = Inr []"
| "try_filter_map f (x # xs) =
     (case f x of
        Inl e \<Rightarrow> Inl e
      | Inr y \<Rightarrow>
          (case try_filter_map f xs of
             Inl e \<Rightarrow> Inl e
           | Inr ys \<Rightarrow> Inr (case y of None \<Rightarrow> ys | Some z \<Rightarrow> z # ys)))"

subsection \<open>Upper and lower case\<close>

definition upper_char :: "char \<Rightarrow> char" where
  "upper_char c =
     (let n = (of_char c :: nat) in if 97 \<le> n \<and> n \<le> 122 then char_of (n - 32) else c)"

definition lower_char :: "char \<Rightarrow> char" where
  "lower_char c =
     (let n = (of_char c :: nat) in if 65 \<le> n \<and> n \<le> 90 then char_of (n + 32) else c)"

definition upper :: "string \<Rightarrow> string" where
  "upper s = map upper_char s"

definition lower :: "string \<Rightarrow> string" where
  "lower s = map lower_char s"

text \<open>\<open>x.upper()\<close> and \<open>x.lower()\<close> on a payload value: only a \<open>str\<close> has the methods.
  Letters outside ASCII are left as they are.\<close>

fun py_upper :: "json \<Rightarrow> exn + string" where
  "py_upper (JStr s) = Inr (upper s)"
| "py_upper _ = Inl AttributeError"

fun py_lower :: "json \<Rightarrow> exn + string" where
  "py_lower (JStr s) = Inr (lower s)"
| "py_lower _ = Inl AttributeError"

text \<open>\<open>sub in s\<close> on two strings.\<close>

fun py_in :: "string \<Rightarrow> string \<Rightarrow> bool" where
  "py_in sub [] = (sub = [])"
| "py_in sub (c # s) = (take (length sub) (c # s) = sub \<or> py_in sub s)"

subsection \<open>The requests library\<close>

text \<open>
  \<open>response.raise_for_status()\<close> raises \<open>HTTPError\<close> for a status in 400..599, and
  \<open>response.json()\<close> raises \<open>JSONDecodeError\<close> on a body that is not JSON; both are
  subclasses of \<open>RequestException\<close> (the second since requests 2.27), returned here by
  their message. The library's message texts are not reproduced.
\<close>

definition raise_for_status :: "nat \<Rightarrow> string option" where
  "raise_for_status st = (if 400 \<le> st \<and> st < 600 then Some ''HTTPError'' else None)"

definition response_json :: "body \<Rightarrow> string + json" where
  "response_json b = (case b of NotJson \<Rightarrow> Inl ''JSONDecodeError'' | JsonBody j \<Rightarrow> Inr j)"

text \<open>
  The recurring block \<open>response = requests.get(url); response.raise_for_status();
  response.json()\<close>: \<open>Inl m\<close> is a raised \<open>RequestException\<close> with message \<open>m\<close>, the only
  kind of exception these three calls raise here.
\<close>

definition fetch_json :: "http \<Rightarrow> string + json" where
  "fetch_json h =
     (case h of
        Refused m \<Rightarrow> Inl m
      | Reply st b \<Rightarrow>
          (case raise_for_status st of Some m \<Rightarrow> Inl m | None \<Rightarrow> response_json b))"

section \<open>api_prices.py: the price cascade\<close>

text \<open>
  An error text is either a plain \<open>str\<close> or an f-string that embeds a payload value, kept
  unrendered (\<open>None\<close> for Python's \<open>None\<close> of a missing key).
\<close>

datatype errtext = Text string | FText string "json option"

record ExchangePrice =
  exchange :: string
  price :: real
  error :: "errtext option"

definition is_error :: "ExchangePrice \<Rightarrow> bool" where
  "is_error q = (error q \<noteq> None)"

definition token_map :: "(string \<times> string) list" where
  "token_map =
     [(''btc'', ''bitcoin''), (''eth'', ''ethereum''), (''sol'', ''solana''),
      (''xrp'', ''ripple''), (''ada'', ''cardano''), (''doge'', ''dogecoin''),
      (''link'', ''chainlink''), (''uni'', ''uniswap''), (''ai16z'', ''ai16z''),
      (''virtual'', ''virtual-protocol''), (''sui'', ''sui''), (''fet'', ''fetch-ai''),
      (''usdc'', ''usd-coin''), (''usdt'', ''tether'')]"

text \<open>
  \<open>_make_request\<close> returns the parsed JSON, or the \<open>str\<close> \<open>"Error: ..."\<close> when the
  request raised a \<open>RequestException\<close>. Every getter below returns the list of requests it
  issued together with its result.
\<close>

definition make_request :: "network \<Rightarrow> string \<Rightarrow> json" where
  "make_request net url =
     (case fetch_json (net (GET url)) of
        Inl m \<Rightarrow> JStr (''Error: '' @ m)
      | Inr j \<Rightarrow> j)"

definition quote :: "string \<Rightarrow> real \<Rightarrow> errtext option \<Rightarrow> ExchangePrice" where
  "quote n p e = \<lparr>exchange = n, price = p, error = e\<rparr>"

definition get_upbit_price ::
  "float_parser \<Rightarrow> network \<Rightarrow> string \<Rightarrow> request list \<times> (exn + ExchangePrice)" where
  "get_upbit_price pf net coin =
     (if lower coin = ''krw'' then ([], Inr (quote ''Upbit'' 1 None))
      else
        let url = ''https://api.upbit.com/v1/ticker?markets=KRW-'' @ upper coin;
            data = make_request net url;
            empty = quote ''Upbit'' 0 (Some (Text ''Error: Empty response from API''))
        in (case data of
              JStr s \<Rightarrow> ([GET url], Inr (quote ''Upbit'' 0 (Some (Text s))))
            | _ \<Rightarrow>
                if truthy data then
                  (case py_len data of
                     Inl e \<Rightarrow> ([GET url], Inl e)
                   | Inr n \<Rightarrow>
                       if n > 0 then
                         (case subscript0 data of
                            Inl e \<Rightarrow> ([GET url], Inl e)
                          | Inr d0 \<Rightarrow>
                              (case py_get d0 ''trade_price'' (JNum 0) of
                                 Inl e \<Rightarrow> ([GET url], Inl e)
                               | Inr v \<Rightarrow>
                                   (case py_float pf v of
                                      Inl e \<Rightarrow>
                                        ([GET url],
                                         Inr (quote ''Upbit'' 0
                                                (Some (Text ''Error: Invalid price data''))))
                                    | Inr p \<Rightarrow> ([GET url], Inr (quote ''Upbit'' p None)))))
                       else ([GET url], Inr empty))
                else ([GET url], Inr empty)))"

definition get_bithumb_price ::
  "float_parser \<Rightarrow> network \<Rightarrow> string \<Rightarrow> request list \<times> (exn + ExchangePrice)" where
  "get_bithumb_price pf net coin =
     (if lower coin = ''krw'' then ([], Inr (quote ''Bithumb'' 1 None))
      else
        let url = ''https://api.bithumb.com/public/ticker/'' @ coin @ ''_KRW'';
            data = make_request net url
        in (case data of
              JStr s \<Rightarrow> ([GET url], Inr (quote ''Bithumb'' 0 (Some (Text s))))
            | _ \<Rightarrow>
                (case py_get data ''status'' JNull of
                   Inl e \<Rightarrow> ([GET url], Inl e)
                 | Inr st \<Rightarrow>
                     if st = JStr ''0000'' then
                       (case subscript data ''data'' of
                          Inl e \<Rightarrow> ([GET url], Inl e)
                        | Inr d \<Rightarrow>
                            (case py_get d ''closing_price'' (JNum 0) of
                               Inl e \<Rightarrow> ([GET url], Inl e)
                             | Inr v \<Rightarrow>
                                 (case py_float pf v of
                                    Inl e \<Rightarrow>
                                      ([GET url],
                                       Inr (quote ''Bithumb'' 0
                                              (Some (Text ''Error: Invalid price data''))))
                                  | Inr p \<Rightarrow> ([GET url], Inr (quote ''Bithumb'' p None)))))
                     else
                       ([GET url],
                        Inr (quote ''Bithumb'' 0
                               (Some (FText ''Error: API returned status '' (Some st))))))))"

definition get_coinone_price ::
  "float_parser \<Rightarrow> network \<Rightarrow> string \<Rightarrow> request list \<times> (exn + ExchangePrice)" where
  "get_coinone_price pf net coin =
     (if lower coin = ''krw'' then ([], Inr (quote ''Coinone'' 1 None))
      else
        let url = ''https://api.coinone.co.kr/ticker/?currency='' @ coin;
            data = make_request net url
        in (case data of
              JStr s \<Rightarrow> ([GET url], Inr (quote ''Coinone'' 0 (Some (Text s))))
            | _ \<Rightarrow>
                (case py_get data ''errorCode'' JNull of
                   Inl e \<Rightarrow> ([GET url], Inl e)
                 | Inr ec \<Rightarrow>
                     if ec = JStr ''0'' then
                       (case py_get data ''last'' (JNum 0) of
                          Inl e \<Rightarrow> ([GET url], Inl e)
                        | Inr v \<Rightarrow>
                            (case py_float pf v of
                               Inl e \<Rightarrow>
                                 ([GET url],
                                  Inr (quote ''Coinone'' 0
                                         (Some (Text ''Error: Invalid price data''))))
                             | Inr p \<Rightarrow> ([GET url], Inr (quote ''Coinone'' p None))))
                     else
                       ([GET url],
                        Inr (quote ''Coinone'' 0
                               (Some (FText ''Error: API returned errorCode '' (Some ec))))))))"

definition get_coingecko_price ::
  "float_parser \<Rightarrow> network \<Rightarrow> string \<Rightarrow> request list \<times> (exn + ExchangePrice)" where
  "get_coingecko_price pf net coin =
     (if lower coin = ''krw'' then ([], Inr (quote ''Coingecko'' 1 None))
      else
        let token_id = (case map_of token_map (lower coin) of
                          None \<Rightarrow> lower coin | Some t \<Rightarrow> t);
            url = ''https://api.coingecko.com/api/v3/simple/price?ids='' @ token_id
                    @ ''&vs_currencies=krw'';
            data = make_request net url
        in (case data of
              JStr s \<Rightarrow> ([GET url], Inr (quote ''Coingecko'' 0 (Some (Text s))))
            | _ \<Rightarrow>
                (case py_get data token_id (JObj []) of
                   Inl e \<Rightarrow> ([GET url], Inl e)
                 | Inr entry \<Rightarrow>
                     (case py_get entry ''krw'' (JNum 0) of
                        Inl e \<Rightarrow> ([GET url], Inl e)
                      | Inr v \<Rightarrow>
                          (case py_float pf v of
                             Inl e \<Rightarrow>
                               ([GET url],
                                Inr (quote ''Coingecko'' 0
                                       (Some (FText ''Error: Unable to get price for ''
                                              (Some (JStr coin))))))
                           | Inr p \<Rightarrow> ([GET url], Inr (quote ''Coingecko'' p None)))))))"

type_synonym price_getter =
  "float_parser \<Rightarrow> network \<Rightarrow> string \<Rightarrow> request list \<times> (exn + ExchangePrice)"

definition exchanges :: "(price_getter \<times> string) list" where
  "exchanges =
     [(get_upbit_price, ''Upbit''), (get_bithumb_price, ''Bithumb''),
      (get_coinone_price, ''Coinone''), (get_coingecko_price, ''Coingecko'')]"

text \<open>The \<open>for get_price, exchange_name in exchanges\<close> loop; an exception of a getter
  leaves the loop and the function.\<close>

fun price_loop ::
  "float_parser \<Rightarrow> network \<Rightarrow> string \<Rightarrow> (price_getter \<times> string) list
     \<Rightarrow> request list \<times> (exn + real \<times> string)" where
  "price_loop pf net symbol [] = ([], Inr (0, ''No valid price found''))"
| "price_loop pf net symbol ((get_price, exchange_name) # rest) =
     (case get_price pf net symbol of
        (reqs, Inl e) \<Rightarrow> (reqs, Inl e)
      | (reqs, Inr result) \<Rightarrow>
          if \<not> is_error result \<and> price result > 0
          then (reqs, Inr (price result, exchange_name))
          else (case price_loop pf net symbol rest of
                  (reqs', r) \<Rightarrow> (reqs @ reqs', r)))"

definition get_first_valid_price ::
  "float_parser \<Rightarrow> network \<Rightarrow> string \<Rightarrow> request list \<times> (exn + real \<times> string)" where
  "get_first_valid_price pf net symbol = price_loop pf net symbol exchanges"

subsection \<open>The reference cascade\<close>

text \<open>
  The cascade as the specification words it, over the quotes of the sources in their fixed
  order: a quote is valid when it has no error and a positive price; the answer is the first
  valid quote, attributed to its source, or the sentinel when there is none; \<open>consulted\<close> is
  the number of sources evaluated, the first valid one being the last.
\<close>

definition is_valid :: "ExchangePrice \<Rightarrow> bool" where
  "is_valid q = (error q = None \<and> price q > 0)"

definition cascade_ref :: "ExchangePrice list \<Rightarrow> real \<times> string" where
  "cascade_ref qs =
     (case find is_valid qs of
        Some q \<Rightarrow> (price q, exchange q)
      | None \<Rightarrow> (0, ''No valid price found''))"

definition consulted :: "ExchangePrice list \<Rightarrow> nat" where
  "consulted qs = Suc (length (takeWhile (\<lambda>q. \<not> is_valid q) qs))"

text \<open>A network on which only Bithumb answers, and a parser that reads a few literals.\<close>

definition net1 :: network where
  "net1 rq =
     (if rq = GET ''https://api.bithumb.com/public/ticker/btc_KRW''
      then Reply 200 (JsonBody (JObj [(''status'', JStr ''0000''),
                                       (''data'', JObj [(''closing_price'', JStr ''100'')])]))
      else Refused ''down'')"

definition pf1 :: float_parser where
  "pf1 = map_of [(''0'', 0), (''1'', 1), (''2'', 2), (''3'', 3), (''5'', 5), (''25'', 25),
                 (''100'', 100)]"

section \<open>api_korbit.py: the OAuth2 token cache\<close>

text \<open>
  The fields of a \<open>KorbitAPI\<close> object that change: the cached token (\<open>JNull\<close> is Python's
  \<open>None\<close>) and its expiry. The client id and secret are only sent, never read back.
\<close>

record KorbitAPI =
  access_token :: json
  token_expires_at :: real

text \<open>\<open>time.time() + token_data['expires_in']\<close>: a number is added, anything else is a
  \<open>TypeError\<close>.\<close>

fun py_add_time :: "real \<Rightarrow> json \<Rightarrow> exn + real" where
  "py_add_time t (JNum r) = Inr (t + r)"
| "py_add_time t (JBool b) = Inr (t + (if b then 1 else 0))"
| "py_add_time t _ = Inl TypeError"

text \<open>
  \<open>_get_access_token\<close>. The readings of the clock are arguments: \<open>now\<close> is the
  \<open>time.time()\<close> of the expiry test and \<open>acquired\<close> the one taken after the grant response
  has been parsed; \<open>grant\<close> is what the POST to the token endpoint does when it is issued. The
  result is the exception raised (if any), the object afterwards and the number of grant
  requests issued. The \<open>except Exception\<close> block re-raises, the token assigned before the
  failure stays assigned.
\<close>

definition Korbit_get_access_token ::
  "real \<Rightarrow> http \<Rightarrow> real \<Rightarrow> KorbitAPI \<Rightarrow> exn option \<times> KorbitAPI \<times> nat" where
  "Korbit_get_access_token now grant acquired self =
     (if now < token_expires_at self then (None, self, 0)
      else
        (case fetch_json grant of
           Inl m \<Rightarrow> (Some (RequestException m), self, 1)
         | Inr token_data \<Rightarrow>
             (case subscript token_data ''access_token'' of
                Inl e \<Rightarrow> (Some e, self, 1)
              | Inr tok \<Rightarrow>
                  let self1 = self\<lparr>access_token := tok\<rparr>
                  in (case subscript token_data ''expires_in'' of
                        Inl e \<Rightarrow> (Some e, self1, 1)
                      | Inr ex \<Rightarrow>
                          (case py_add_time acquired ex of
                             Inl e \<Rightarrow> (Some e, self1, 1)
                           | Inr v \<Rightarrow>
                               (None, self1\<lparr>token_expires_at := v - 60\<rparr>, 1))))))"


text \<open>\<open>_get_headers\<close>, the entry of every authenticated call: the header
  \<open>Authorization: Bearer <token>\<close> is returned by the token it carries.\<close>

definition Korbit_get_headers ::
  "real \<Rightarrow> http \<Rightarrow> real \<Rightarrow> KorbitAPI \<Rightarrow> (exn + json) \<times> KorbitAPI \<times> nat" where
  "Korbit_get_headers now grant acquired self =
     (case Korbit_get_access_token now grant acquired self of
        (Some e, self', n) \<Rightarrow> (Inl e, self', n)
      | (None, self', n) \<Rightarrow> (Inr (access_token self'), self', n))"


text \<open>A grant response with a token valid for 120 seconds, and the session it leaves when
  acquired at time 1000.\<close>

definition grant120 :: http where
  "grant120 =
     Reply 200 (JsonBody (JObj [(''access_token'', JStr ''tok''), (''expires_in'', JNum 120)]))"

definition session120 :: KorbitAPI where
  "session120 = \<lparr>access_token = JStr ''tok'', token_expires_at = 1060\<rparr>"

section \<open>Balances, report rows and pandas\<close>

text \<open>
  The normalised balance dict \<open>{'currency': ..., 'balance': ...}\<close> and the report row
  \<open>{'currency', 'balance', 'price', 'total', 'date'}\<close>, to which the aggregator adds
  \<open>'exchange'\<close>. The currency is whatever value the payload carries. The \<open>date\<close> column, a
  formatted wall-clock or payload time, is left out: nothing below reads it.
\<close>

record Balance =
  currency :: json
  balance :: real

record ReportLine = Balance +
  unit_price :: real
  total :: real
  exchange_tag :: "string option"

definition report_line :: "json \<Rightarrow> real \<Rightarrow> real \<Rightarrow> real \<Rightarrow> ReportLine" where
  "report_line c b p t =
     \<lparr>currency = c, balance = b, unit_price = p, total = t, exchange_tag = None\<rparr>"

text \<open>
  A \<open>DataFrame\<close> is the list of its rows. \<open>DataFrame.sort_values(by="total",
  ascending=False)\<close> is library code: its reordering of the rows is the parameter \<open>srt\<close> of
  every function that sorts. The library promises a reordering in descending order of the
  key (\<open>sorts_descending\<close>); with the default \<open>kind\<close>, which all call sites use, it does
  not promise to keep rows of equal key in their order (\<open>stable_sorter\<close>).
\<close>

type_synonym sorter = "ReportLine list \<Rightarrow> ReportLine list"

definition sorts_descending :: "sorter \<Rightarrow> bool" where
  "sorts_descending srt =
     (\<forall>rows. mset (srt rows) = mset rows \<and>
             sorted_wrt (\<lambda>a b. total a \<ge> total b) (srt rows))"

definition stable_sorter :: "sorter \<Rightarrow> bool" where
  "stable_sorter srt =
     (\<forall>rows k. filter (\<lambda>r. total r = k) (srt rows) = filter (\<lambda>r. total r = k) rows)"

text \<open>One sorter that meets both: reverse, sort ascending by insertion, reverse.\<close>

definition desc_sort :: sorter where
  "desc_sort rows = rev (sort_key total (rev rows))"

text \<open>
  \<open>pd.DataFrame(report).sort_values(by="total", ...)\<close> on a frame built from a list of
  row dicts: the frame of an empty list has no columns, and sorting it by \<open>total\<close> raises
  \<open>KeyError\<close>.
\<close>

definition sort_values :: "sorter \<Rightarrow> ReportLine list \<Rightarrow> exn + ReportLine list" where
  "sort_values srt rows = (if rows = [] then Inl KeyError else Inr (srt rows))"

section \<open>cex_agg.py: the aggregator\<close>

text \<open>\<open>df['exchange'] = name\<close>.\<close>

definition tag :: "string \<Rightarrow> ReportLine list \<Rightarrow> ReportLine list" where
  "tag name df = map (\<lambda>r. r\<lparr>exchange_tag := Some name\<rparr>) df"

text \<open>
  \<open>Aggregator.get_report\<close>. The four arguments are what the calls
  \<open>self.bithumb.get_report_with_nonzero_balances()\<close>, ... do when they are reached, in the
  order of the source: \<open>Inl e\<close> when the call raises, \<open>Inr df\<close> when it returns. All four
  calls stand in one \<open>try\<close> block whose \<open>except Exception\<close> returns an empty frame.
\<close>

definition Aggregator_get_report ::
  "sorter \<Rightarrow> exn + ReportLine list \<Rightarrow> exn + ReportLine list \<Rightarrow> exn + ReportLine list
     \<Rightarrow> exn + ReportLine list \<Rightarrow> ReportLine list" where
  "Aggregator_get_report srt bithumb coinone korbit upbit =
     (case bithumb of
        Inl e \<Rightarrow> []
      | Inr bithumb_df \<Rightarrow>
          let dfs1 = (if bithumb_df \<noteq> [] then [tag ''Bithumb'' bithumb_df] else [])
          in (case coinone of
                Inl e \<Rightarrow> []
              | Inr coinone_df \<Rightarrow>
                  let dfs2 = dfs1 @ (if coinone_df \<noteq> [] then [tag ''Coinone'' coinone_df]
                                     else [])
                  in (case korbit of
                        Inl e \<Rightarrow> []
                      | Inr korbit_df \<Rightarrow>
                          let dfs3 = dfs2 @ (if korbit_df \<noteq> [] then [tag ''Korbit'' korbit_df]
                                             else [])
                          in (case upbit of
                                Inl e \<Rightarrow> []
                              | Inr upbit_df \<Rightarrow>
                                  let dfs = dfs3 @ (if upbit_df \<noteq> []
                                                    then [tag ''Upbit'' upbit_df] else [])
                                  in if dfs \<noteq> [] then srt (concat dfs) else []))))"

text \<open>Two rows, one held at Bithumb and one at Upbit.\<close>

definition row_btc :: ReportLine where
  "row_btc = report_line (JStr ''BTC'') 1 100 100"

definition row_eth :: ReportLine where
  "row_eth = report_line (JStr ''ETH'') 2 25 50"

section \<open>api_bithumb.py\<close>

text \<open>
  The signature of a request (JWT, HMAC, nonce) has no part in what the client does with the
  answer; a network answers a request by its URL. \<open>_request\<close> turns every
  \<open>RequestException\<close> into the empty list.
\<close>

definition Bithumb_request :: "network \<Rightarrow> string \<Rightarrow> string \<Rightarrow> json" where
  "Bithumb_request net method endpoint =
     (let url = ''https://api.bithumb.com'' @ endpoint
      in case fetch_json (net (if upper method = ''GET'' then GET url else POST url None)) of
           Inl m \<Rightarrow> JArr []
         | Inr j \<Rightarrow> j)"

text \<open>One element of the comprehension
  \<open>{'currency': account['currency'], 'balance': float(account['balance']) +
  float(account['locked'])}\<close>.\<close>

definition Bithumb_account :: "float_parser \<Rightarrow> json \<Rightarrow> exn + Balance" where
  "Bithumb_account pf account =
     and_then (subscript account ''currency'') (\<lambda>c.
     and_then (subscript account ''balance'') (\<lambda>b.
     and_then (py_float pf b) (\<lambda>fb.
     and_then (subscript account ''locked'') (\<lambda>l.
     and_then (py_float pf l) (\<lambda>fl.
       Inr \<lparr>currency = c, balance = fb + fl\<rparr>)))))"

text \<open>The loop over the requested currencies: the first account of that currency, or a
  zero balance.\<close>

fun Bithumb_fill :: "Balance list \<Rightarrow> string list \<Rightarrow> Balance list \<Rightarrow> Balance list" where
  "Bithumb_fill accounts [] result = result"
| "Bithumb_fill accounts (c # cs) result =
     (case find (\<lambda>acc. currency acc = JStr c) accounts of
        Some account \<Rightarrow> Bithumb_fill accounts cs (result @ [account])
      | None \<Rightarrow> Bithumb_fill accounts cs (result @ [\<lparr>currency = JStr c, balance = 0\<rparr>]))"

definition Bithumb_get_balances ::
  "float_parser \<Rightarrow> network \<Rightarrow> string list option \<Rightarrow> exn + Balance list" where
  "Bithumb_get_balances pf net currencies =
     (let response = Bithumb_request net ''GET'' ''/v1/accounts''
      in and_then (py_iter response) (\<lambda>items.
         and_then (try_map (Bithumb_account pf) items) (\<lambda>accounts.
           case currencies of
             None \<Rightarrow> Inr accounts
           | Some cs \<Rightarrow> Inr (Bithumb_fill accounts cs []))))"

definition Bithumb_EXCLUDED_COINS :: "string list" where
  "Bithumb_EXCLUDED_COINS = [''P'', ''ETHW'', ''ETHF'']"

text \<open>The condition \<open>float(balance['balance']) > 0 and balance['currency'].upper() not in
  EXCLUDED_COINS\<close>; \<open>and\<close> does not evaluate its right side when the left is false.\<close>

definition Bithumb_keep :: "Balance \<Rightarrow> exn + Balance option" where
  "Bithumb_keep b =
     (if balance b > 0 then
        and_then (py_upper (currency b)) (\<lambda>u.
          Inr (if u \<notin> set Bithumb_EXCLUDED_COINS then Some b else None))
      else Inr None)"

definition Bithumb_get_nonzero_balances :: "float_parser \<Rightarrow> network \<Rightarrow> exn + Balance list" where
  "Bithumb_get_nonzero_balances pf net =
     and_then (Bithumb_get_balances pf net None) (try_filter_map Bithumb_keep)"

text \<open>
  \<open>get_price_by_currency(coin: str)\<close>: a \<open>ValueError\<close> or \<open>KeyError\<close> gives 0.0, any
  other exception leaves the function.
\<close>

definition Bithumb_get_price_by_currency ::
  "float_parser \<Rightarrow> network \<Rightarrow> string \<Rightarrow> exn + real" where
  "Bithumb_get_price_by_currency pf net coin =
     (let response = Bithumb_request net ''GET'' (''/public/ticker/'' @ coin @ ''_KRW'');
          body = (case response of
                    JObj kvs \<Rightarrow>
                      and_then (py_get response ''data'' JNull) (\<lambda>d.
                        if truthy d then
                          and_then (subscript response ''data'') (\<lambda>d'.
                          and_then (subscript d' ''closing_price'') (py_float pf))
                        else Inr 0)
                  | _ \<Rightarrow> Inr 0)
      in case body of
           Inl ValueError \<Rightarrow> Inr 0
         | Inl KeyError \<Rightarrow> Inr 0
         | r \<Rightarrow> r)"

text \<open>
  One row of \<open>get_report\<close>. The price lookup is declared for a \<open>str\<close>; a currency that is
  not one is outside the model, which stops with \<open>TypeError\<close> there (Python would format the
  value into the URL).
\<close>

definition Bithumb_row :: "float_parser \<Rightarrow> network \<Rightarrow> Balance \<Rightarrow> exn + ReportLine" where
  "Bithumb_row pf net account =
     (let cur = currency account; bal = balance account
      in and_then (if cur = JStr ''KRW'' then Inr 1
                   else (case cur of
                           JStr coin \<Rightarrow> Bithumb_get_price_by_currency pf net coin
                         | _ \<Rightarrow> Inl TypeError))
           (\<lambda>price. Inr (report_line cur bal price (bal * price))))"

text \<open>\<open>get_report\<close> returns the rows in the order of the accounts; it does not sort.\<close>

definition Bithumb_get_report ::
  "float_parser \<Rightarrow> network \<Rightarrow> string list option \<Rightarrow> exn + ReportLine list" where
  "Bithumb_get_report pf net currencies =
     and_then (Bithumb_get_balances pf net currencies) (\<lambda>accounts.
       if accounts = [] then Inr []
       else try_map (Bithumb_row pf net) accounts)"

section \<open>api_upbit.py\<close>

text \<open>
  The loop \<open>balance['balance'] = str(float(balance['balance']) + float(balance['locked']))\<close>
  rewrites each payload dict in place. The stored \<open>str\<close> of the sum is only ever read back
  with \<open>float\<close>, which returns the sum; the model stores the number.
\<close>

definition Upbit_sum :: "float_parser \<Rightarrow> json \<Rightarrow> exn + json" where
  "Upbit_sum pf bal =
     and_then (subscript bal ''balance'') (\<lambda>b.
     and_then (py_float pf b) (\<lambda>fb.
     and_then (subscript bal ''locked'') (\<lambda>l.
     and_then (py_float pf l) (\<lambda>fl.
       case bal of
         JObj kvs \<Rightarrow>
           Inr (JObj (map (\<lambda>kv. if fst kv = ''balance'' then (fst kv, JNum (fb + fl)) else kv)
                       kvs))
       | _ \<Rightarrow> Inl TypeError))))"

text \<open>The condition \<open>balance['currency'] in currencies\<close>.\<close>

definition Upbit_requested :: "string list \<Rightarrow> json \<Rightarrow> exn + json option" where
  "Upbit_requested currencies bal =
     and_then (subscript bal ''currency'') (\<lambda>c.
       Inr (if c \<in> JStr ` set currencies then Some bal else None))"

text \<open>
  \<open>get_balances\<close>: \<open>requests.get\<close> and \<open>response.json()\<close> stand outside any \<open>try\<close>; a
  status other than 200 gives the empty list.
\<close>

definition Upbit_get_balances ::
  "float_parser \<Rightarrow> network \<Rightarrow> string list option \<Rightarrow> exn + json list" where
  "Upbit_get_balances pf net currencies =
     (case net (GET ''https://api.upbit.com/v1/accounts'') of
        Refused m \<Rightarrow> Inl (RequestException m)
      | Reply st b \<Rightarrow>
          if st \<noteq> 200 then Inr []
          else
            (case response_json b of
               Inl m \<Rightarrow> Inl (RequestException m)
             | Inr payload \<Rightarrow>
                 and_then (py_iter payload) (\<lambda>items.
                 and_then (try_map (Upbit_sum pf) items) (\<lambda>balances.
                   case currencies of
                     None \<Rightarrow> Inr balances
                   | Some cs \<Rightarrow>
                       if cs \<noteq> [] then try_filter_map (Upbit_requested cs) balances
                       else Inr balances))))"

definition Upbit_get_balance_by_currency ::
  "float_parser \<Rightarrow> network \<Rightarrow> string \<Rightarrow> exn + json option" where
  "Upbit_get_balance_by_currency pf net cur =
     and_then (Upbit_get_balances pf net (Some [cur])) (\<lambda>balances.
       Inr (case balances of [] \<Rightarrow> None | b # _ \<Rightarrow> Some b))"

definition Upbit_EXCLUDED_COINS :: "string list" where
  "Upbit_EXCLUDED_COINS = [''ETHW'', ''ETHF'']"

definition Upbit_keep :: "float_parser \<Rightarrow> json \<Rightarrow> exn + json option" where
  "Upbit_keep pf bal =
     and_then (subscript bal ''balance'') (\<lambda>b.
     and_then (py_float pf b) (\<lambda>fb.
       if fb > 0 then
         and_then (subscript bal ''currency'') (\<lambda>c.
         and_then (py_upper c) (\<lambda>u.
           Inr (if u \<notin> set Upbit_EXCLUDED_COINS then Some bal else None)))
       else Inr None))"

definition Upbit_get_nonzero_balances :: "float_parser \<Rightarrow> network \<Rightarrow> exn + json list" where
  "Upbit_get_nonzero_balances pf net =
     and_then (Upbit_get_balances pf net None) (try_filter_map (Upbit_keep pf))"

text \<open>
  \<open>get_price_by_currency\<close> returns \<open>(price, timestamp)\<close>; the model returns the price, the
  raw payload value or \<open>JNull\<close> for \<open>None\<close>, after the reads that make the timestamp. Only a
  \<open>RequestException\<close> is caught.
\<close>

definition py_div_1000 :: "json \<Rightarrow> exn + real" where
  "py_div_1000 v =
     (case v of
        JNum r \<Rightarrow> Inr (r / 1000)
      | JBool b \<Rightarrow> Inr ((if b then 1 else 0) / 1000)
      | _ \<Rightarrow> Inl TypeError)"

definition Upbit_get_price_by_currency :: "network \<Rightarrow> string \<Rightarrow> exn + json" where
  "Upbit_get_price_by_currency net coin =
     (if coin = ''KRW'' then Inr (JNum 1)
      else
        (case fetch_json (net (GET (''https://api.upbit.com/v1/ticker?markets=KRW-'' @ coin))) of
           Inl m \<Rightarrow> Inr JNull
         | Inr data \<Rightarrow>
             if truthy data then
               and_then (subscript0 data) (\<lambda>d0.
               and_then (subscript d0 ''timestamp'') (\<lambda>ts.
               and_then (py_div_1000 ts) (\<lambda>seconds.
               and_then (subscript0 data) (\<lambda>d0'.
                 subscript d0' ''trade_price''))))
             else Inr JNull))"

text \<open>\<open>float(balance['balance']) * price\<close> for a price that is not \<open>None\<close>.\<close>

definition py_mul :: "real \<Rightarrow> json \<Rightarrow> exn + real \<times> real" where
  "py_mul x pr =
     (case pr of
        JNum p \<Rightarrow> Inr (p, x * p)
      | JBool b \<Rightarrow> Inr ((if b then 1 else 0), x * (if b then 1 else 0))
      | _ \<Rightarrow> Inl TypeError)"

text \<open>One turn of the loop of \<open>get_report\<close>: a row, or nothing when the currency has no
  balance entry or no price.\<close>

definition Upbit_row :: "float_parser \<Rightarrow> network \<Rightarrow> string \<Rightarrow> exn + ReportLine option" where
  "Upbit_row pf net cur =
     and_then (Upbit_get_balance_by_currency pf net cur) (\<lambda>bal.
       case bal of
         None \<Rightarrow> Inr None
       | Some b \<Rightarrow>
           if truthy b then
             and_then (Upbit_get_price_by_currency net cur) (\<lambda>price.
               if price \<noteq> JNull then
                 and_then (subscript b ''balance'') (\<lambda>v.
                 and_then (py_float pf v) (\<lambda>fb.
                 and_then (py_mul fb price) (\<lambda>pt.
                   Inr (Some (report_line (JStr cur) fb (fst pt) (snd pt))))))
               else Inr None)
           else Inr None)"

definition Upbit_get_report ::
  "float_parser \<Rightarrow> sorter \<Rightarrow> network \<Rightarrow> string list \<Rightarrow> exn + ReportLine list" where
  "Upbit_get_report pf srt net currencies =
     and_then (try_filter_map (Upbit_row pf net) currencies) (sort_values srt)"

section \<open>api_coinone.py\<close>

text \<open>
  \<open>_post_request\<close> has no \<open>try\<close> and no status check: a failing \<open>requests.post\<close> and a
  body that is not JSON raise. Of the payload the model keeps the requested currencies.
\<close>

definition Coinone_post_request ::
  "network \<Rightarrow> string \<Rightarrow> string list option \<Rightarrow> exn + json" where
  "Coinone_post_request net endpoint currencies =
     (case net (POST (''https://api.coinone.co.kr/'' @ endpoint) currencies) of
        Refused m \<Rightarrow> Inl (RequestException m)
      | Reply st b \<Rightarrow>
          (case response_json b of
             Inl m \<Rightarrow> Inl (RequestException m)
           | Inr j \<Rightarrow> Inr j))"

text \<open>\<open>{"currency": balance["currency"], "balance": float(balance["available"]) +
  float(balance["limit"])}\<close>.\<close>

definition Coinone_balance :: "float_parser \<Rightarrow> json \<Rightarrow> exn + Balance" where
  "Coinone_balance pf bal =
     and_then (subscript bal ''currency'') (\<lambda>c.
     and_then (subscript bal ''available'') (\<lambda>a.
     and_then (py_float pf a) (\<lambda>fa.
     and_then (subscript bal ''limit'') (\<lambda>l.
     and_then (py_float pf l) (\<lambda>fl.
       Inr \<lparr>currency = c, balance = fa + fl\<rparr>)))))"

definition Coinone_get_balances ::
  "float_parser \<Rightarrow> network \<Rightarrow> string list \<Rightarrow> exn + Balance list" where
  "Coinone_get_balances pf net currencies =
     and_then (Coinone_post_request net ''/v2.1/account/balance'' (Some currencies)) (\<lambda>response.
     and_then (py_get response ''result'' JNull) (\<lambda>r.
       if r \<noteq> JStr ''success'' then Inr []
       else
         and_then (py_get response ''balances'' (JArr [])) (\<lambda>bl.
         and_then (py_iter bl) (try_map (Coinone_balance pf)))))"

text \<open>The comprehension of \<open>get_nonzero_balances\<close> tests
  \<open>float(balance["available"]) + float(balance["limit"]) > 0\<close> before it builds the dict;
  it tests nothing else.\<close>

definition Coinone_keep :: "float_parser \<Rightarrow> json \<Rightarrow> exn + Balance option" where
  "Coinone_keep pf bal =
     and_then (subscript bal ''available'') (\<lambda>a.
     and_then (py_float pf a) (\<lambda>fa.
     and_then (subscript bal ''limit'') (\<lambda>l.
     and_then (py_float pf l) (\<lambda>fl.
       if fa + fl > 0 then and_then (Coinone_balance pf bal) (\<lambda>b. Inr (Some b))
       else Inr None))))"

definition Coinone_get_nonzero_balances :: "float_parser \<Rightarrow> network \<Rightarrow> exn + Balance list" where
  "Coinone_get_nonzero_balances pf net =
     and_then (Coinone_post_request net ''/v2.1/account/balance/all'' None) (\<lambda>response.
     and_then (py_get response ''result'' JNull) (\<lambda>r.
       if r \<noteq> JStr ''success'' then Inr []
       else
         and_then (py_get response ''balances'' (JArr [])) (\<lambda>bl.
         and_then (py_iter bl) (try_filter_map (Coinone_keep pf)))))"

text \<open>
  \<open>get_price_by_currency\<close> returns a float or an error \<open>str\<close>. Its inner \<open>_make_request\<close>
  is the one of api_prices.py and returns a \<open>str\<close> when the request failed; the next line
  calls \<open>data.get\<close> on whatever came back.
\<close>

definition Coinone_get_price_by_currency :: "float_parser \<Rightarrow> network \<Rightarrow> json \<Rightarrow> exn + json" where
  "Coinone_get_price_by_currency pf net coin =
     and_then (py_lower coin) (\<lambda>lc.
       if lc = ''krw'' then Inr (JNum 1)
       else
         (case coin of
            JStr c \<Rightarrow>
              let data = make_request net (''https://api.coinone.co.kr/ticker/?currency='' @ c)
              in and_then (py_get data ''errorCode'' JNull) (\<lambda>ec.
                   if ec = JStr ''0'' then
                     and_then (py_get data ''last'' (JNum 0)) (\<lambda>v.
                       case py_float pf v of
                         Inl e \<Rightarrow> Inr (JStr ''Error: Invalid Coinone price data..'')
                       | Inr p \<Rightarrow> Inr (JNum p))
                   else Inr (JStr ''Error: Invalid Coinone price data''))
          | _ \<Rightarrow> Inl AttributeError))"

text \<open>One turn of the loop of \<open>get_report\<close>: \<open>continue\<close> on an error string, else the row
  with \<open>total_value = price * balance_amount\<close>.\<close>

definition Coinone_row :: "float_parser \<Rightarrow> network \<Rightarrow> Balance \<Rightarrow> exn + ReportLine option" where
  "Coinone_row pf net bal =
     and_then (Coinone_get_price_by_currency pf net (currency bal)) (\<lambda>price.
       case price of
         JStr s \<Rightarrow> if py_in ''Error'' s then Inr None else Inl TypeError
       | JNum p \<Rightarrow> Inr (Some (report_line (currency bal) (balance bal) p (p * balance bal)))
       | _ \<Rightarrow> Inl TypeError)"

definition Coinone_get_report ::
  "float_parser \<Rightarrow> sorter \<Rightarrow> network \<Rightarrow> string list \<Rightarrow> exn + ReportLine list" where
  "Coinone_get_report pf srt net currencies =
     and_then (Coinone_get_balances pf net currencies) (\<lambda>balances.
     and_then (try_filter_map (Coinone_row pf net) balances) (sort_values srt))"

section \<open>api_korbit.py: balances\<close>

record KBalance = Balance +
  available :: real
  locked :: real

text \<open>One item of \<open>data.items()\<close> in \<open>get_balances\<close>: skipped when a non-empty list of
  currencies is given and does not hold the key.\<close>

definition Korbit_balance ::
  "float_parser \<Rightarrow> string list option \<Rightarrow> string \<times> json \<Rightarrow> exn + (string \<times> KBalance) option" where
  "Korbit_balance pf currencies kv =
     (if (case currencies of None \<Rightarrow> False | Some cs \<Rightarrow> cs \<noteq> [] \<and> fst kv \<notin> set cs)
      then Inr None
      else
        and_then (py_get (snd kv) ''available'' (JNum 0)) (\<lambda>a.
        and_then (py_float pf a) (\<lambda>av.
        and_then (py_get (snd kv) ''trade_in_use'' (JNum 0)) (\<lambda>t.
        and_then (py_float pf t) (\<lambda>trade_in_use.
          Inr (Some (fst kv,
                     \<lparr>currency = JStr (fst kv), balance = av + trade_in_use,
                      available = av, locked = trade_in_use\<rparr>)))))))"

text \<open>
  \<open>get_balances\<close> returns a dict from currency to balance, here the list of its items. The
  headers are made inside the \<open>try\<close>, so a \<open>RequestException\<close> of the token refresh is
  caught like one of the request itself and gives the empty dict; any other exception
  leaves the function. The object is returned with the token it holds afterwards.
\<close>

definition Korbit_get_balances ::
  "float_parser \<Rightarrow> real \<Rightarrow> http \<Rightarrow> real \<Rightarrow> network \<Rightarrow> KorbitAPI \<Rightarrow> string list option
     \<Rightarrow> (exn + (string \<times> KBalance) list) \<times> KorbitAPI" where
  "Korbit_get_balances pf now grant acquired net self currencies =
     (case Korbit_get_headers now grant acquired self of
        (Inl (RequestException m), self', n) \<Rightarrow> (Inr [], self')
      | (Inl e, self', n) \<Rightarrow> (Inl e, self')
      | (Inr hdr, self', n) \<Rightarrow>
          (case fetch_json (net (GET ''https://api.korbit.co.kr/v1/user/balances'')) of
             Inl m \<Rightarrow> (Inr [], self')
           | Inr data \<Rightarrow>
               if \<not> truthy data then (Inr [], self')
               else
                 (case data of
                    JObj kvs \<Rightarrow> (try_filter_map (Korbit_balance pf currencies) kvs, self')
                  | _ \<Rightarrow> (Inl AttributeError, self'))))"

definition Korbit_EXCLUDED_COINS :: "string list" where
  "Korbit_EXCLUDED_COINS = [''ethw'', ''ethf'']"

definition Korbit_get_nonzero_balances ::
  "float_parser \<Rightarrow> real \<Rightarrow> http \<Rightarrow> real \<Rightarrow> network \<Rightarrow> KorbitAPI
     \<Rightarrow> (exn + (string \<times> KBalance) list) \<times> KorbitAPI" where
  "Korbit_get_nonzero_balances pf now grant acquired net self =
     (case Korbit_get_balances pf now grant acquired net self None of
        (Inl e, self') \<Rightarrow> (Inl e, self')
      | (Inr balances, self') \<Rightarrow>
          (Inr (filter (\<lambda>kd. balance (snd kd) > 0 \<and> lower (fst kd) \<notin> set Korbit_EXCLUDED_COINS)
                  balances),
           self'))"

section \<open>A concrete scenario\<close>

text \<open>
  The accounts of one user at the four exchanges and the tickers of the coins, as the
  endpoints answer them; every other request is answered by 404 with a body that is not
  JSON.
\<close>

definition acct :: "string \<Rightarrow> string \<Rightarrow> string \<Rightarrow> string \<Rightarrow> string \<Rightarrow> json" where
  "acct c kb b kl l = JObj [(''currency'', JStr c), (kb, JStr b), (kl, JStr l)]"

definition ok :: "json \<Rightarrow> http" where
  "ok j = Reply 200 (JsonBody j)"

definition bithumb_ticker :: "string \<Rightarrow> json" where
  "bithumb_ticker p = JObj [(''status'', JStr ''0000''), (''data'', JObj [(''closing_price'', JStr p)])]"

definition net2 :: network where
  "net2 rq =
     (if rq = GET ''https://api.bithumb.com/v1/accounts'' then
        ok (JArr [acct ''ETH'' ''balance'' ''2'' ''locked'' ''0'',
                  acct ''BTC'' ''balance'' ''1'' ''locked'' ''0'',
                  acct ''UNKNOWNCOIN'' ''balance'' ''5'' ''locked'' ''0'',
                  acct ''ethw'' ''balance'' ''3'' ''locked'' ''0'',
                  acct ''XRP'' ''balance'' ''0'' ''locked'' ''0''])
      else if rq = GET ''https://api.bithumb.com/public/ticker/ETH_KRW'' then
        ok (bithumb_ticker ''25'')
      else if rq = GET ''https://api.bithumb.com/public/ticker/BTC_KRW'' then
        ok (bithumb_ticker ''100'')
      else if rq = GET ''https://api.upbit.com/v1/accounts'' then
        ok (JArr [acct ''ETH'' ''balance'' ''2'' ''locked'' ''0'',
                  acct ''BTC'' ''balance'' ''1'' ''locked'' ''0'',
                  acct ''EthW'' ''balance'' ''3'' ''locked'' ''0'',
                  acct ''XRP'' ''balance'' ''0'' ''locked'' ''0''])
      else if rq = POST ''https://api.coinone.co.kr//v2.1/account/balance''
                     (Some [''BTC'', ''UNKNOWNCOIN'']) then
        ok (JObj [(''result'', JStr ''success''),
                  (''balances'', JArr [acct ''BTC'' ''available'' ''1'' ''limit'' ''0'',
                                       acct ''UNKNOWNCOIN'' ''available'' ''5'' ''limit'' ''0''])])
      else if rq = POST ''https://api.coinone.co.kr//v2.1/account/balance/all'' None then
        ok (JObj [(''result'', JStr ''success''),
                  (''balances'', JArr [acct ''BTC'' ''available'' ''1'' ''limit'' ''0'',
                                       acct ''XRP'' ''available'' ''0'' ''limit'' ''0'',
                                       acct ''ETHW'' ''available'' ''3'' ''limit'' ''0''])])
      else if rq = GET ''https://api.coinone.co.kr/ticker/?currency=BTC'' then
        ok (JObj [(''errorCode'', JStr ''0''), (''last'', JStr ''100'')])
      else if rq = GET ''https://api.coinone.co.kr/ticker/?currency=UNKNOWNCOIN'' then
        ok (JObj [(''errorCode'', JStr ''108''), (''result'', JStr ''error'')])
      else if rq = GET ''https://api.korbit.co.kr/v1/user/balances'' then
        ok (JObj [(''btc'', JObj [(''available'', JStr ''1''), (''trade_in_use'', JStr ''0'')]),
                  (''ETHW'', JObj [(''available'', JStr ''3''), (''trade_in_use'', JStr ''0'')]),
                  (''xrp'', JObj [(''available'', JStr ''0''), (''trade_in_use'', JStr ''0'')])])
      else Reply 404 NotJson)"

text \<open>
  The same user with funds in open orders: at every exchange the BTC is held entirely in
  orders, some ETHW is held, and the XRP account is empty.
\<close>

definition net3 :: network where
  "net3 rq =
     (if rq = GET ''https://api.bithumb.com/v1/accounts'' then
        ok (JArr [acct ''ETH'' ''balance'' ''1'' ''locked'' ''1'',
                  acct ''BTC'' ''balance'' ''0'' ''locked'' ''1'',
                  acct ''ethw'' ''balance'' ''2'' ''locked'' ''1'',
                  acct ''XRP'' ''balance'' ''0'' ''locked'' ''0''])
      else if rq = GET ''https://api.upbit.com/v1/accounts'' then
        ok (JArr [acct ''ETH'' ''balance'' ''1'' ''locked'' ''1'',
                  acct ''BTC'' ''balance'' ''0'' ''locked'' ''1'',
                  acct ''EthW'' ''balance'' ''2'' ''locked'' ''1'',
                  acct ''XRP'' ''balance'' ''0'' ''locked'' ''0''])
      else if rq = POST ''https://api.coinone.co.kr//v2.1/account/balance/all'' None then
        ok (JObj [(''result'', JStr ''success''),
                  (''balances'', JArr [acct ''BTC'' ''available'' ''0'' ''limit'' ''1'',
                                       acct ''XRP'' ''available'' ''0'' ''limit'' ''0'',
                                       acct ''ETHW'' ''available'' ''2'' ''limit'' ''1''])])
      else if rq = GET ''https://api.korbit.co.kr/v1/user/balances'' then
        ok (JObj [(''btc'', JObj [(''available'', JStr ''0''), (''trade_in_use'', JStr ''1'')]),
                  (''ETHW'', JObj [(''available'', JStr ''2''), (''trade_in_use'', JStr ''1'')]),
                  (''xrp'', JObj [(''available'', JStr ''0''), (''trade_in_use'', JStr ''0'')])])
      else Reply 404 NotJson)"

text \<open>A network on which every request fails at the transport.\<close>

definition net_down :: network where
  "net_down rq = Refused ''Connection refused''"

section \<open>Reference notions for the clients\<close>

text \<open>The entry for a requested currency, as the specification words it: the balance the
  exchange reports for it, or a zero-balance placeholder.\<close>

definition requested_entry :: "Balance list \<Rightarrow> string \<Rightarrow> Balance" where
  "requested_entry accounts c =
     (case find (\<lambda>acc. currency acc = JStr c) accounts of
        Some account \<Rightarrow> account
      | None \<Rightarrow> \<lparr>currency = JStr c, balance = 0\<rparr>)"

text \<open>The currency and the total of an Upbit balance dict (\<open>JNull\<close> and 0 when the key is
  missing).\<close>

definition Upbit_currency :: "json \<Rightarrow> json" where
  "Upbit_currency bal = (case subscript bal ''currency'' of Inr c \<Rightarrow> c | Inl e \<Rightarrow> JNull)"

definition Upbit_total :: "json \<Rightarrow> real" where
  "Upbit_total bal = (case subscript bal ''balance'' of Inr (JNum r) \<Rightarrow> r | _ \<Rightarrow> 0)"

text \<open>Membership in an exclusion list, compared without regard to letter case.\<close>

definition excluded_ci :: "string list \<Rightarrow> string \<Rightarrow> bool" where
  "excluded_ci excl c = (lower c \<in> lower ` set excl)"

definition excluded_json :: "string list \<Rightarrow> json \<Rightarrow> bool" where
  "excluded_json excl j = (case j of JStr c \<Rightarrow> excluded_ci excl c | _ \<Rightarrow> False)"

definition is_str :: "json \<Rightarrow> bool" where
  "is_str j = (case j of JStr c \<Rightarrow> True | _ \<Rightarrow> False)"

text \<open>
  One entry of a raw balance payload read as the specification's Balance: the currency and
  the two quantities, available and locked, under the field names of the exchange;
  \<open>None\<close> when a field is missing or is not a number.
\<close>

definition raw_entry ::
  "float_parser \<Rightarrow> string \<Rightarrow> string \<Rightarrow> json \<Rightarrow> (json \<times> real \<times> real) option" where
  "raw_entry pf k_available k_locked entry =
     (case subscript entry ''currency'' of
        Inl e \<Rightarrow> None
      | Inr c \<Rightarrow>
          (case and_then (subscript entry k_available) (py_float pf) of
             Inl e \<Rightarrow> None
           | Inr a \<Rightarrow>
               (case and_then (subscript entry k_locked) (py_float pf) of
                  Inl e \<Rightarrow> None
                | Inr l \<Rightarrow> Some (c, a, l))))"

text \<open>One item of the Korbit payload, a dict from currency to quantities, in which a
  missing quantity counts as 0.\<close>

definition raw_item :: "float_parser \<Rightarrow> string \<times> json \<Rightarrow> (string \<times> real \<times> real) option" where
  "raw_item pf kv =
     (case and_then (py_get (snd kv) ''available'' (JNum 0)) (py_float pf) of
        Inl e \<Rightarrow> None
      | Inr a \<Rightarrow>
          (case and_then (py_get (snd kv) ''trade_in_use'' (JNum 0)) (py_float pf) of
             Inl e \<Rightarrow> None
           | Inr l \<Rightarrow> Some (fst kv, a, l)))"

text \<open>
  \<open>nonzero_only\<close> as the specification words it: keep the entries whose total, available
  plus locked, is greater than 0 and whose currency is not excluded.
\<close>

definition nonzero_only ::
  "('c \<Rightarrow> bool) \<Rightarrow> ('c \<times> real \<times> real) list \<Rightarrow> ('c \<times> real \<times> real) list" where
  "nonzero_only excluded ts = filter (\<lambda>(c, a, l). 0 < a + l \<and> \<not> excluded c) ts"

text \<open>The normalised balances of a raw entry and of a Korbit item.\<close>

definition to_balance :: "json \<times> real \<times> real \<Rightarrow> Balance" where
  "to_balance t = (case t of (c, a, l) \<Rightarrow> \<lparr>currency = c, balance = a + l\<rparr>)"

definition to_kbalance :: "string \<times> real \<times> real \<Rightarrow> string \<times> KBalance" where
  "to_kbalance t =
     (case t of (k, a, l) \<Rightarrow>
        (k, \<lparr>currency = JStr k, balance = a + l, available = a, locked = l\<rparr>))"

text \<open>Whether the Coinone price lookup for a balance gives a number, and the row built
  from that number.\<close>

definition Coinone_priced :: "float_parser \<Rightarrow> network \<Rightarrow> Balance \<Rightarrow> bool" where
  "Coinone_priced pf net bal =
     (case Coinone_get_price_by_currency pf net (currency bal) of
        Inr (JNum p) \<Rightarrow> True
      | _ \<Rightarrow> False)"

definition Coinone_line :: "float_parser \<Rightarrow> network \<Rightarrow> Balance \<Rightarrow> ReportLine" where
  "Coinone_line pf net bal =
     (case Coinone_get_price_by_currency pf net (currency bal) of
        Inr (JNum p) \<Rightarrow> report_line (currency bal) (balance bal) p (p * balance bal)
      | _ \<Rightarrow> report_line (currency bal) (balance bal) 0 0)"

section \<open>Properties of the price cascade\<close>

lemma lower_KRW: "lower ''KRW'' = ''krw''"
  by code_simp

lemma lower_btc: "lower ''btc'' = ''btc''"
  by code_simp

lemma upper_btc: "upper ''btc'' = ''BTC''"
  by code_simp

text \<open>Every quote a getter returns carries the name the loop pairs the getter with.\<close>

lemma upbit_name: "get_upbit_price pf net s = (r, Inr q) \<Longrightarrow> exchange q = ''Upbit''"
  by (auto simp: get_upbit_price_def quote_def Let_def split: if_splits json.splits sum.splits)

lemma bithumb_name: "get_bithumb_price pf net s = (r, Inr q) \<Longrightarrow> exchange q = ''Bithumb''"
  by (auto simp: get_bithumb_price_def quote_def Let_def split: if_splits json.splits sum.splits)

lemma coinone_name: "get_coinone_price pf net s = (r, Inr q) \<Longrightarrow> exchange q = ''Coinone''"
  by (auto simp: get_coinone_price_def quote_def Let_def split: if_splits json.splits sum.splits)

lemma coingecko_name:
  "get_coingecko_price pf net s = (r, Inr q) \<Longrightarrow> exchange q = ''Coingecko''"
  by (auto simp: get_coingecko_price_def quote_def Let_def split: if_splits json.splits sum.splits)

text \<open>The loop over any list of getters is the reference cascade over the quotes of the
  getters it consults, and it issues the requests of those getters only: \<open>outs\<close> are the
  requests and quotes of the first \<open>k\<close> getters, which are all getters or reach a valid
  quote.\<close>

lemma loop_test_valid: "(\<not> is_error q \<and> price q > 0) = is_valid q"
  by (simp add: is_valid_def is_error_def)

lemma price_loop_prefix:
  assumes "\<And>g n r q. (g, n) \<in> set gs \<Longrightarrow> g pf net symbol = (r, Inr q) \<Longrightarrow> exchange q = n"
    and "list_all2 (\<lambda>gn rq. fst gn pf net symbol = (fst rq, Inr (snd rq))) (take k gs) outs"
    and "length gs \<le> k \<or> (\<exists>q \<in> set (map snd outs). is_valid q)"
  shows "price_loop pf net symbol gs =
           (concat (take (consulted (map snd outs)) (map fst outs)),
            Inr (cascade_ref (map snd outs)))"
  using assms
proof (induction gs arbitrary: k outs)
  case Nil
  then show ?case by (simp add: cascade_ref_def consulted_def)
next
  case (Cons a gs)
  obtain g n where a: "a = (g, n)" by (cases a)
  show ?case
  proof (cases k)
    case 0
    with Cons.prems(2,3) show ?thesis by simp
  next
    case (Suc k')
    with Cons.prems(2) obtain o1 outs' where o: "outs = o1 # outs'"
      by (cases outs) auto
    obtain r q where o1: "o1 = (r, q)" by (cases o1)
    from Cons.prems(2) Suc have h: "g pf net symbol = (r, Inr q)"
      and rest: "list_all2 (\<lambda>gn rq. fst gn pf net symbol = (fst rq, Inr (snd rq)))
                   (take k' gs) outs'"
      by (auto simp: a o o1)
    from Cons.prems(1)[of g n r q] h have n: "exchange q = n" by (simp add: a)
    show ?thesis
    proof (cases "is_valid q")
      case True
      with h n show ?thesis
        by (simp add: a o o1 cascade_ref_def consulted_def loop_test_valid)
    next
      case False
      with Cons.prems(3) Suc
      have c: "length gs \<le> k' \<or> (\<exists>q \<in> set (map snd outs'). is_valid q)"
        by (auto simp: o o1)
      have "price_loop pf net symbol gs =
              (concat (take (consulted (map snd outs')) (map fst outs')),
               Inr (cascade_ref (map snd outs')))"
      proof (rule Cons.IH[OF _ rest c])
        fix g' n' r' q'
        assume "(g', n') \<in> set gs" and "g' pf net symbol = (r', Inr q')"
        then show "exchange q' = n'" using Cons.prems(1)[of g' n' r' q'] by simp
      qed
      with False h show ?thesis
        by (simp add: a o o1 cascade_ref_def consulted_def loop_test_valid)
    qed
  qed
qed

lemma exchanges_names:
  "(g, n) \<in> set exchanges \<Longrightarrow> g pf net symbol = (r, Inr q) \<Longrightarrow> exchange q = n"
  using upbit_name[of pf net symbol r q] bithumb_name[of pf net symbol r q]
    coinone_name[of pf net symbol r q] coingecko_name[of pf net symbol r q]
  by (auto simp: exchanges_def)

lemma krw_short_circuit:
  "lower symbol = ''krw'' \<Longrightarrow> get_first_valid_price pf net symbol = ([], Inr (1, ''Upbit''))"
  by (simp add: get_first_valid_price_def exchanges_def get_upbit_price_def quote_def
      is_error_def)

text \<open>Each getter asked about another symbol than the fiat code issues exactly one request.\<close>

lemma getters_one_request:
  assumes "lower symbol \<noteq> ''krw''"
  shows "length (fst (get_upbit_price pf net symbol)) = 1"
    and "length (fst (get_bithumb_price pf net symbol)) = 1"
    and "length (fst (get_coinone_price pf net symbol)) = 1"
    and "length (fst (get_coingecko_price pf net symbol)) = 1"
  using assms
  by (auto simp: get_upbit_price_def get_bithumb_price_def get_coinone_price_def
      get_coingecko_price_def Let_def split: json.splits sum.splits)

lemma upbit_btc:
  "get_upbit_price pf1 net1 ''btc'' =
     ([GET ''https://api.upbit.com/v1/ticker?markets=KRW-BTC''],
      Inr (quote ''Upbit'' 0 (Some (Text ''Error: down''))))"
  by (simp add: get_upbit_price_def lower_btc upper_btc make_request_def net1_def fetch_json_def)

lemma bithumb_btc:
  "get_bithumb_price pf1 net1 ''btc'' =
     ([GET ''https://api.bithumb.com/public/ticker/btc_KRW''], Inr (quote ''Bithumb'' 100 None))"
  by (simp add: get_bithumb_price_def lower_btc make_request_def net1_def fetch_json_def
      raise_for_status_def response_json_def pf1_def)

lemma first_valid_btc:
  "get_first_valid_price pf1 net1 ''btc'' =
     ([GET ''https://api.upbit.com/v1/ticker?markets=KRW-BTC'',
       GET ''https://api.bithumb.com/public/ticker/btc_KRW''], Inr (100, ''Bithumb''))"
  by (simp add: get_first_valid_price_def exchanges_def upbit_btc bithumb_btc quote_def
      is_error_def)

lemma upbit_down:
  "get_upbit_price pf1 net_down ''btc'' =
     ([GET ''https://api.upbit.com/v1/ticker?markets=KRW-BTC''],
      Inr (quote ''Upbit'' 0 (Some (Text ''Error: Connection refused''))))"
  by (simp add: get_upbit_price_def lower_btc upper_btc make_request_def net_down_def
      fetch_json_def)

lemma bithumb_down:
  "get_bithumb_price pf1 net_down ''btc'' =
     ([GET ''https://api.bithumb.com/public/ticker/btc_KRW''],
      Inr (quote ''Bithumb'' 0 (Some (Text ''Error: Connection refused''))))"
  by (simp add: get_bithumb_price_def lower_btc make_request_def net_down_def fetch_json_def)

lemma coinone_down:
  "get_coinone_price pf1 net_down ''btc'' =
     ([GET ''https://api.coinone.co.kr/ticker/?currency=btc''],
      Inr (quote ''Coinone'' 0 (Some (Text ''Error: Connection refused''))))"
  by (simp add: get_coinone_price_def lower_btc make_request_def net_down_def fetch_json_def)

lemma coingecko_down:
  "get_coingecko_price pf1 net_down ''btc'' =
     ([GET ''https://api.coingecko.com/api/v3/simple/price?ids=bitcoin&vs_currencies=krw''],
      Inr (quote ''Coingecko'' 0 (Some (Text ''Error: Connection refused''))))"
  by (simp add: get_coingecko_price_def lower_btc make_request_def net_down_def fetch_json_def
      token_map_def)

text \<open>
  Claim C1. For every symbol, \<open>get_first_valid_price\<close> is the reference cascade over the
  sources Upbit, Bithumb, Coinone, Coingecko in this order. For the fiat code \<open>krw\<close> in any
  letter case it returns \<open>(1.0, "Upbit")\<close>, Upbit being the source under evaluation, and
  issues no request. Otherwise, \<open>outs\<close> being the requests and the quotes of the first
  \<open>k\<close> sources, which are all four or reach a valid quote, it returns price and source of
  the first quote with no error and a positive price, having issued the requests of the
  sources up to that one and of no later source, and \<open>(0.0, "No valid price found")\<close> when
  none of the four quotes is valid.
\<close>

theorem first_valid_price_is_cascade:
  "(lower symbol = ''krw'' \<longrightarrow>
      get_first_valid_price pf net symbol = ([], Inr (1, ''Upbit''))) \<and>
   (list_all2 (\<lambda>gn rq. fst gn pf net symbol = (fst rq, Inr (snd rq))) (take k exchanges) outs \<and>
    (4 \<le> k \<or> (\<exists>q \<in> set (map snd outs). is_valid q)) \<longrightarrow>
      get_first_valid_price pf net symbol =
        (concat (take (consulted (map snd outs)) (map fst outs)),
         Inr (cascade_ref (map snd outs))))"
proof (intro conjI impI)
  assume "lower symbol = ''krw''"
  then show "get_first_valid_price pf net symbol = ([], Inr (1, ''Upbit''))"
    by (rule krw_short_circuit)
next
  assume a: "list_all2 (\<lambda>gn rq. fst gn pf net symbol = (fst rq, Inr (snd rq)))
               (take k exchanges) outs \<and>
             (4 \<le> k \<or> (\<exists>q \<in> set (map snd outs). is_valid q))"
  have "length exchanges = 4" by (simp add: exchanges_def)
  with a have c: "length exchanges \<le> k \<or> (\<exists>q \<in> set (map snd outs). is_valid q)"
    by presburger
  show "get_first_valid_price pf net symbol =
        (concat (take (consulted (map snd outs)) (map fst outs)),
         Inr (cascade_ref (map snd outs)))"
    unfolding get_first_valid_price_def
    by (rule price_loop_prefix[OF exchanges_names conjunct1[OF a] c])
qed

theorem first_valid_price_is_cascade_witness:
  "lower ''KRW'' = ''krw'' \<and>
   get_first_valid_price pf1 net1 ''KRW'' = ([], Inr (1, ''Upbit'')) \<and>
   get_first_valid_price pf1 net1 ''btc'' =
     ([GET ''https://api.upbit.com/v1/ticker?markets=KRW-BTC'',
       GET ''https://api.bithumb.com/public/ticker/btc_KRW''], Inr (100, ''Bithumb'')) \<and>
   get_first_valid_price pf1 net_down ''btc'' =
     ([GET ''https://api.upbit.com/v1/ticker?markets=KRW-BTC'',
       GET ''https://api.bithumb.com/public/ticker/btc_KRW'',
       GET ''https://api.coinone.co.kr/ticker/?currency=btc'',
       GET ''https://api.coingecko.com/api/v3/simple/price?ids=bitcoin&vs_currencies=krw''],
      Inr (0, ''No valid price found''))"
proof -
  have a: "get_first_valid_price pf1 net1 ''KRW'' = ([], Inr (1, ''Upbit''))"
    using first_valid_price_is_cascade[of "''KRW''" pf1 net1] lower_KRW by simp
  let ?o2 = "[([GET ''https://api.upbit.com/v1/ticker?markets=KRW-BTC''],
               quote ''Upbit'' 0 (Some (Text ''Error: down''))),
              ([GET ''https://api.bithumb.com/public/ticker/btc_KRW''],
               quote ''Bithumb'' 100 None)]"
  have h2: "list_all2 (\<lambda>gn rq. fst gn pf1 net1 ''btc'' = (fst rq, Inr (snd rq)))
              (take 2 exchanges) ?o2 \<and>
            (4 \<le> (2::nat) \<or> (\<exists>q \<in> set (map snd ?o2). is_valid q))"
    by (simp add: exchanges_def upbit_btc bithumb_btc is_valid_def quote_def)
  have b: "get_first_valid_price pf1 net1 ''btc'' =
     ([GET ''https://api.upbit.com/v1/ticker?markets=KRW-BTC'',
       GET ''https://api.bithumb.com/public/ticker/btc_KRW''], Inr (100, ''Bithumb''))"
    using first_valid_price_is_cascade[of "''btc''" pf1 net1 2 ?o2, THEN conjunct2, rule_format, OF h2]
    by (simp add: consulted_def cascade_ref_def is_valid_def quote_def)
  let ?o4 = "[([GET ''https://api.upbit.com/v1/ticker?markets=KRW-BTC''],
               quote ''Upbit'' 0 (Some (Text ''Error: Connection refused''))),
              ([GET ''https://api.bithumb.com/public/ticker/btc_KRW''],
               quote ''Bithumb'' 0 (Some (Text ''Error: Connection refused''))),
              ([GET ''https://api.coinone.co.kr/ticker/?currency=btc''],
               quote ''Coinone'' 0 (Some (Text ''Error: Connection refused''))),
              ([GET ''https://api.coingecko.com/api/v3/simple/price?ids=bitcoin&vs_currencies=krw''],
               quote ''Coingecko'' 0 (Some (Text ''Error: Connection refused'')))]"
  have h4: "list_all2 (\<lambda>gn rq. fst gn pf1 net_down ''btc'' = (fst rq, Inr (snd rq)))
              (take 4 exchanges) ?o4 \<and>
            (4 \<le> (4::nat) \<or> (\<exists>q \<in> set (map snd ?o4). is_valid q))"
    by (simp add: exchanges_def upbit_down bithumb_down coinone_down coingecko_down)
  have c: "get_first_valid_price pf1 net_down ''btc'' =
     ([GET ''https://api.upbit.com/v1/ticker?markets=KRW-BTC'',
       GET ''https://api.bithumb.com/public/ticker/btc_KRW'',
       GET ''https://api.coinone.co.kr/ticker/?currency=btc'',
       GET ''https://api.coingecko.com/api/v3/simple/price?ids=bitcoin&vs_currencies=krw''],
      Inr (0, ''No valid price found''))"
    using first_valid_price_is_cascade[of "''btc''" pf1 net_down 4 ?o4, THEN conjunct2, rule_format, OF h4]
    by (simp add: consulted_def cascade_ref_def is_valid_def quote_def)
  show ?thesis using a b c lower_KRW by blast
qed


text \<open>The loop returns a positive price under one of its own names, or zero under the
  sentinel.\<close>

lemma price_loop_inv:
  assumes "price_loop pf net symbol gs = (reqs, Inr (p, src))"
  shows "(0 < p \<and> src \<in> snd ` set gs) \<or> (p = 0 \<and> src = ''No valid price found'')"
  using assms
proof (induction gs arbitrary: reqs)
  case Nil
  then show ?case by simp
next
  case (Cons a gs)
  obtain g n where a: "a = (g, n)" by (cases a)
  show ?case
  proof (cases "g pf net symbol")
    case (Pair r out)
    show ?thesis
    proof (cases out)
      case (Inl e)
      with Cons.prems Pair a show ?thesis by simp
    next
      case (Inr q)
      show ?thesis
      proof (cases "\<not> is_error q \<and> price q > 0")
        case True
        with Cons.prems Pair a Inr show ?thesis by auto
      next
        case False
        obtain r' out' where pl: "price_loop pf net symbol gs = (r', out')"
          by (cases "price_loop pf net symbol gs")
        with Cons.prems Pair a Inr False have "out' = Inr (p, src)" by auto
        with Cons.IH[of r'] pl show ?thesis by auto
      qed
    qed
  qed
qed

text \<open>
  Claim C10. The pair \<open>(price, source)\<close> returned by \<open>get_first_valid_price\<close> has a
  price that is not negative; the price is positive exactly when the source is one of the
  four exchange names, and it is zero exactly when the source is the sentinel
  \<open>"No valid price found"\<close>.
\<close>

theorem first_valid_price_invariant:
  "get_first_valid_price pf net symbol = (reqs, Inr (p, src)) \<Longrightarrow>
     0 \<le> p \<and>
     (0 < p \<longleftrightarrow> src \<in> {''Upbit'', ''Bithumb'', ''Coinone'', ''Coingecko''}) \<and>
     (p = 0 \<longleftrightarrow> src = ''No valid price found'')"
  using price_loop_inv[of pf net symbol exchanges reqs p src]
  by (auto simp: get_first_valid_price_def exchanges_def)

theorem first_valid_price_invariant_witness:
  "get_first_valid_price pf1 net1 ''btc'' =
     ([GET ''https://api.upbit.com/v1/ticker?markets=KRW-BTC'',
       GET ''https://api.bithumb.com/public/ticker/btc_KRW''], Inr (100, ''Bithumb'')) \<and>
   0 \<le> (100::real) \<and>
   (0 < (100::real) \<longleftrightarrow> ''Bithumb'' \<in> {''Upbit'', ''Bithumb'', ''Coinone'', ''Coingecko''}) \<and>
   ((100::real) = 0 \<longleftrightarrow> ''Bithumb'' = ''No valid price found'')"
  using first_valid_price_invariant[OF first_valid_btc] first_valid_btc by simp

section \<open>Properties of the token cache\<close>











section \<open>Properties of the sorter and the aggregator\<close>

lemma desc_sort_sorts: "sorts_descending desc_sort"
  unfolding sorts_descending_def desc_sort_def
proof (intro allI conjI)
  fix rows :: "ReportLine list"
  show "mset (rev (sort_key total (rev rows))) = mset rows" by simp
  have "sorted (map total (sort_key total (rev rows)))" by (rule sorted_sort_key)
  then have "sorted_wrt (\<lambda>a b. total a \<le> total b) (sort_key total (rev rows))"
    by (simp add: sorted_wrt_map)
  then show "sorted_wrt (\<lambda>a b. total a \<ge> total b) (rev (sort_key total (rev rows)))"
    by (simp add: sorted_wrt_rev)
qed

lemma desc_sort_stable: "stable_sorter desc_sort"
  unfolding stable_sorter_def desc_sort_def
  by (simp add: rev_filter[symmetric] sort_key_stable)

lemma sort_values_sorted:
  assumes "sorts_descending srt" and "sort_values srt rows = Inr df"
  shows "mset df = mset rows" and "sorted_wrt (\<lambda>a b. total a \<ge> total b) df"
  using assms by (auto simp: sort_values_def sorts_descending_def split: if_splits)

lemma aggregator_raise:
  "bithumb = Inl e \<or> coinone = Inl e \<or> korbit = Inl e \<or> upbit = Inl e \<Longrightarrow>
     Aggregator_get_report srt bithumb coinone korbit upbit = []"
  by (auto simp: Aggregator_get_report_def Let_def split: sum.splits)

lemma aggregator_all_returned:
  assumes "sorts_descending srt"
  shows "mset (Aggregator_get_report srt (Inr b) (Inr c) (Inr k) (Inr u)) =
           mset (tag ''Bithumb'' b @ tag ''Coinone'' c @ tag ''Korbit'' k @ tag ''Upbit'' u)"
    and "sorted_wrt (\<lambda>x y. total x \<ge> total y)
           (Aggregator_get_report srt (Inr b) (Inr c) (Inr k) (Inr u))"
  using assms
  by (auto simp: Aggregator_get_report_def Let_def sorts_descending_def tag_def)

text \<open>Bithumb and Upbit report one row each, Coinone holds nothing and the Korbit report
  raises: the aggregated report is empty, the rows of Bithumb and Upbit are not returned.\<close>

theorem aggregator_isolation_counterexample:
  "Aggregator_get_report desc_sort (Inr [row_btc]) (Inr []) (Inl KeyError) (Inr [row_eth]) = []"
  by (simp add: Aggregator_get_report_def)

text \<open>
  Claim C2, amended. If building the report of any one exchange raises,
  \<open>Aggregator.get_report\<close> catches the exception and returns the empty table: the call does
  not raise, and no row of any exchange is returned. When no report raises, the result holds
  the rows of all four reports, each tagged with its exchange, in descending order of
  \<open>total\<close>.
\<close>

theorem aggregator_failure_empties:
  "((\<exists>e. bithumb = Inl e \<or> coinone = Inl e \<or> korbit = Inl e \<or> upbit = Inl e) \<longrightarrow>
      Aggregator_get_report srt bithumb coinone korbit upbit = []) \<and>
   (sorts_descending srt \<longrightarrow>
      mset (Aggregator_get_report srt (Inr b) (Inr c) (Inr k) (Inr u)) =
        mset (tag ''Bithumb'' b @ tag ''Coinone'' c @ tag ''Korbit'' k @ tag ''Upbit'' u) \<and>
      sorted_wrt (\<lambda>x y. total x \<ge> total y)
        (Aggregator_get_report srt (Inr b) (Inr c) (Inr k) (Inr u)))"
  using aggregator_raise[of bithumb _ coinone korbit upbit srt]
    aggregator_all_returned[of srt b c k u]
  by blast

theorem aggregator_failure_empties_witness:
  "Aggregator_get_report desc_sort (Inr [row_btc]) (Inr []) (Inl KeyError) (Inr [row_eth]) = [] \<and>
   sorts_descending desc_sort \<and>
   mset (Aggregator_get_report desc_sort (Inr [row_eth]) (Inr []) (Inr []) (Inr [row_btc])) =
     {#row_eth\<lparr>exchange_tag := Some ''Bithumb''\<rparr>, row_btc\<lparr>exchange_tag := Some ''Upbit''\<rparr>#} \<and>
   sorted_wrt (\<lambda>x y. total x \<ge> total y)
     (Aggregator_get_report desc_sort (Inr [row_eth]) (Inr []) (Inr []) (Inr [row_btc]))"
proof -
  note t = aggregator_failure_empties[of "Inr [row_btc]" "Inr []" "Inl KeyError" "Inr [row_eth]"
      desc_sort "[row_eth]" "[]" "[]" "[row_btc]"]
  have a: "Aggregator_get_report desc_sort (Inr [row_btc]) (Inr []) (Inl KeyError)
             (Inr [row_eth]) = []"
    using t by blast
  have b: "mset (Aggregator_get_report desc_sort (Inr [row_eth]) (Inr []) (Inr [])
                   (Inr [row_btc])) =
           mset (tag ''Bithumb'' [row_eth] @ tag ''Coinone'' [] @ tag ''Korbit'' []
                   @ tag ''Upbit'' [row_btc])"
    and c: "sorted_wrt (\<lambda>x y. total x \<ge> total y)
              (Aggregator_get_report desc_sort (Inr [row_eth]) (Inr []) (Inr [])
                 (Inr [row_btc]))"
    using t desc_sort_sorts by blast+
  from b have b': "mset (Aggregator_get_report desc_sort (Inr [row_eth]) (Inr []) (Inr [])
                   (Inr [row_btc])) =
     {#row_eth\<lparr>exchange_tag := Some ''Bithumb''\<rparr>, row_btc\<lparr>exchange_tag := Some ''Upbit''\<rparr>#}"
    by (simp add: tag_def)
  show ?thesis using a b' c desc_sort_sorts by blast
qed

section \<open>Properties of the exchange clients\<close>

subsection \<open>Comprehensions that may raise\<close>

lemma and_then_Inr [simp]: "and_then (Inr x) f = f x"
  by (simp add: and_then_def)

lemma and_then_Inl [simp]: "and_then (Inl e) f = Inl e"
  by (simp add: and_then_def)

lemma and_then_eq_Inr: "and_then r f = Inr y \<longleftrightarrow> (\<exists>x. r = Inr x \<and> f x = Inr y)"
  by (cases r) auto

lemma try_map_Inr: "try_map f xs = Inr ys \<longleftrightarrow> list_all2 (\<lambda>x y. f x = Inr y) xs ys"
proof (induction xs arbitrary: ys)
  case Nil
  then show ?case by auto
next
  case (Cons x xs)
  show ?case
    by (cases ys) (auto simp: Cons.IH[symmetric] split: sum.splits)
qed

text \<open>A comprehension whose condition never raises is a filter.\<close>

lemma try_filter_map_filter:
  assumes "\<And>x. x \<in> set xs \<Longrightarrow> f x = Inr (if P x then Some (g x) else None)"
  shows "try_filter_map f xs = Inr (map g (filter P xs))"
  using assms by (induction xs) auto

text \<open>A comprehension that returned was a filter.\<close>

lemma try_filter_map_as_filter:
  assumes "try_filter_map f xs = Inr r"
    and "\<And>x o'. x \<in> set xs \<Longrightarrow> f x = Inr o' \<Longrightarrow> o' = (if P x then Some (g x) else None)"
  shows "r = map g (filter P xs)"
  using assms
proof (induction xs arbitrary: r)
  case Nil
  then show ?case by simp
next
  case (Cons x xs)
  from Cons.prems(1) obtain y r' where fx: "f x = Inr y"
    and r': "try_filter_map f xs = Inr r'"
    and r: "r = (case y of None \<Rightarrow> r' | Some z \<Rightarrow> z # r')"
    by (auto split: sum.splits)
  have y: "y = (if P x then Some (g x) else None)"
    using Cons.prems(2)[of x y] fx by simp
  have "r' = map g (filter P xs)"
    using Cons.IH[OF r'] Cons.prems(2) by simp
  with r y show ?case by simp
qed

text \<open>Filtering while normalising is normalising, then filtering.\<close>

lemma try_filter_map_after_map:
  assumes "list_all2 (\<lambda>x b. f x = Inr b) xs bs"
    and "\<And>x b. f x = Inr b \<Longrightarrow> k x = Inr (if P b then Some b else None)"
  shows "try_filter_map k xs = Inr (filter P bs)"
  using assms by (induction xs bs rule: list_all2_induct) auto

subsection \<open>Evaluation on the scenario\<close>

lemma upper_GET: "upper ''GET'' = ''GET''"
  by code_simp

lemma lower_BTC: "lower ''BTC'' = ''btc''"
  by code_simp

lemma lower_UNKNOWNCOIN: "lower ''UNKNOWNCOIN'' = ''unknowncoin''"
  by code_simp

lemma fetch_ok: "fetch_json (ok j) = Inr j"
  by (simp add: ok_def fetch_json_def raise_for_status_def response_json_def)

lemma fetch_404: "fetch_json (Reply 404 b) = Inl ''HTTPError''"
  by (simp add: fetch_json_def raise_for_status_def)

lemma bithumb_accounts_net2:
  "Bithumb_get_balances pf1 net2 None =
     Inr [\<lparr>currency = JStr ''ETH'', balance = 2\<rparr>, \<lparr>currency = JStr ''BTC'', balance = 1\<rparr>,
          \<lparr>currency = JStr ''UNKNOWNCOIN'', balance = 5\<rparr>,
          \<lparr>currency = JStr ''ethw'', balance = 3\<rparr>, \<lparr>currency = JStr ''XRP'', balance = 0\<rparr>]"
  by (simp add: Bithumb_get_balances_def Bithumb_request_def upper_GET net2_def fetch_ok
      Bithumb_account_def acct_def pf1_def)

lemma upbit_accounts_net2:
  "Upbit_get_balances pf1 net2 None =
     Inr [JObj [(''currency'', JStr ''ETH''), (''balance'', JNum 2), (''locked'', JStr ''0'')],
          JObj [(''currency'', JStr ''BTC''), (''balance'', JNum 1), (''locked'', JStr ''0'')],
          JObj [(''currency'', JStr ''EthW''), (''balance'', JNum 3), (''locked'', JStr ''0'')],
          JObj [(''currency'', JStr ''XRP''), (''balance'', JNum 0), (''locked'', JStr ''0'')]]"
  by (simp add: Upbit_get_balances_def net2_def ok_def response_json_def
      Upbit_sum_def acct_def pf1_def)

lemma upbit_requested_net2:
  "Upbit_get_balances pf1 net2 (Some [''KRW'', ''BTC'']) =
     Inr [JObj [(''currency'', JStr ''BTC''), (''balance'', JNum 1), (''locked'', JStr ''0'')]]"
  by (simp add: Upbit_get_balances_def net2_def ok_def response_json_def
      Upbit_sum_def Upbit_requested_def acct_def pf1_def)

subsection \<open>Balances for requested currencies\<close>

lemma Bithumb_fill_map:
  "Bithumb_fill accounts cs result = result @ map (requested_entry accounts) cs"
  by (induction cs arbitrary: result) (auto simp: requested_entry_def split: option.splits)

lemma requested_entry_currency: "currency (requested_entry accounts c) = JStr c"
  by (auto simp: requested_entry_def find_Some_iff split: option.splits)

lemma bithumb_balances_requested:
  assumes "Bithumb_get_balances pf net None = Inr accounts"
  shows "Bithumb_get_balances pf net (Some cs) = Inr (map (requested_entry accounts) cs)"
  using assms
  by (auto simp: Bithumb_get_balances_def Let_def and_then_eq_Inr Bithumb_fill_map)

lemma upbit_requested_elem:
  "Upbit_requested cs b = Inr o' \<Longrightarrow>
     o' = (if Upbit_currency b \<in> JStr ` set cs then Some b else None)"
  by (cases "subscript b ''currency''") (auto simp: Upbit_requested_def Upbit_currency_def)

lemma upbit_filter_aux:
  "try_filter_map (Upbit_requested cs) bs = Inr r \<Longrightarrow>
     r = filter (\<lambda>b. Upbit_currency b \<in> JStr ` set cs) bs"
proof -
  assume a: "try_filter_map (Upbit_requested cs) bs = Inr r"
  have "r = map id (filter (\<lambda>b. Upbit_currency b \<in> JStr ` set cs) bs)"
    by (rule try_filter_map_as_filter[OF a]) (auto dest: upbit_requested_elem)
  then show ?thesis by simp
qed

lemma upbit_balances_requested:
  assumes "Upbit_get_balances pf net None = Inr balances"
    and "Upbit_get_balances pf net (Some cs) = Inr r" and "cs \<noteq> []"
  shows "r = filter (\<lambda>b. Upbit_currency b \<in> JStr ` set cs) balances"
  using assms
  by (auto simp: Upbit_get_balances_def and_then_eq_Inr upbit_filter_aux
      split: http.splits if_splits sum.splits)

text \<open>The user holds no KRW at Upbit: asked for KRW and BTC, the Upbit client returns the
  BTC entry alone, one entry for two requested currencies and no placeholder.\<close>

theorem upbit_no_placeholder_counterexample:
  "Upbit_get_balances pf1 net2 (Some [''KRW'', ''BTC'']) =
     Inr [JObj [(''currency'', JStr ''BTC''), (''balance'', JNum 1), (''locked'', JStr ''0'')]] \<and>
   length [JObj [(''currency'', JStr ''BTC''), (''balance'', JNum 1), (''locked'', JStr ''0'')]]
     \<noteq> length [''KRW'', ''BTC'']"
  using upbit_requested_net2 by simp

text \<open>
  Claim C3, amended. For the Bithumb client and every list of requested currencies,
  \<open>get_balances(currencies)\<close> returns exactly one entry per requested currency in the
  requested order: the balance the exchange reports for it when the currency is in the
  payload, a zero-balance placeholder when it is absent; the output length is the number of
  requested currencies. The Upbit client adds no placeholder: for a non-empty list it
  returns the payload entries whose currency is requested, in payload order.
\<close>

theorem balances_for_requested:
  "(Bithumb_get_balances pf net None = Inr accounts \<longrightarrow>
      Bithumb_get_balances pf net (Some cs) = Inr (map (requested_entry accounts) cs) \<and>
      length (map (requested_entry accounts) cs) = length cs \<and>
      map currency (map (requested_entry accounts) cs) = map JStr cs) \<and>
   (Upbit_get_balances pf net None = Inr balances \<and>
    Upbit_get_balances pf net (Some cs) = Inr r \<and> cs \<noteq> [] \<longrightarrow>
      r = filter (\<lambda>b. Upbit_currency b \<in> JStr ` set cs) balances)"
  using bithumb_balances_requested[of pf net accounts cs]
    upbit_balances_requested[of pf net balances cs r]
  by (simp add: requested_entry_currency)

theorem balances_for_requested_witness:
  "Bithumb_get_balances pf1 net2 (Some [''KRW'', ''BTC'']) =
     Inr [\<lparr>currency = JStr ''KRW'', balance = 0\<rparr>, \<lparr>currency = JStr ''BTC'', balance = 1\<rparr>] \<and>
   Upbit_get_balances pf1 net2 (Some [''KRW'', ''BTC'']) =
     Inr [JObj [(''currency'', JStr ''BTC''), (''balance'', JNum 1), (''locked'', JStr ''0'')]] \<and>
   [JObj [(''currency'', JStr ''BTC''), (''balance'', JNum 1), (''locked'', JStr ''0'')]] =
     filter (\<lambda>b. Upbit_currency b \<in> JStr ` set [''KRW'', ''BTC''])
       [JObj [(''currency'', JStr ''ETH''), (''balance'', JNum 2), (''locked'', JStr ''0'')],
        JObj [(''currency'', JStr ''BTC''), (''balance'', JNum 1), (''locked'', JStr ''0'')],
        JObj [(''currency'', JStr ''EthW''), (''balance'', JNum 3), (''locked'', JStr ''0'')],
        JObj [(''currency'', JStr ''XRP''), (''balance'', JNum 0), (''locked'', JStr ''0'')]]"
proof -
  note t = balances_for_requested[of pf1 net2 _ "[''KRW'', ''BTC'']" _ _]
  have a: "Bithumb_get_balances pf1 net2 (Some [''KRW'', ''BTC'']) =
     Inr [\<lparr>currency = JStr ''KRW'', balance = 0\<rparr>, \<lparr>currency = JStr ''BTC'', balance = 1\<rparr>]"
    using t[THEN conjunct1, rule_format, OF bithumb_accounts_net2]
    by (simp add: requested_entry_def)
  have b: "[JObj [(''currency'', JStr ''BTC''), (''balance'', JNum 1), (''locked'', JStr ''0'')]] =
     filter (\<lambda>b. Upbit_currency b \<in> JStr ` set [''KRW'', ''BTC''])
       [JObj [(''currency'', JStr ''ETH''), (''balance'', JNum 2), (''locked'', JStr ''0'')],
        JObj [(''currency'', JStr ''BTC''), (''balance'', JNum 1), (''locked'', JStr ''0'')],
        JObj [(''currency'', JStr ''EthW''), (''balance'', JNum 3), (''locked'', JStr ''0'')],
        JObj [(''currency'', JStr ''XRP''), (''balance'', JNum 0), (''locked'', JStr ''0'')]]"
    using t[THEN conjunct2, rule_format,
        OF conjI[OF upbit_accounts_net2 conjI[OF upbit_requested_net2]]]
    by simp
  show ?thesis using a b upbit_requested_net2 by blast
qed

subsection \<open>Reports\<close>

lemma bithumb_price_ETH: "Bithumb_get_price_by_currency pf1 net2 ''ETH'' = Inr 25"
  by (simp add: Bithumb_get_price_by_currency_def Bithumb_request_def upper_GET net2_def fetch_ok
      bithumb_ticker_def pf1_def)

lemma bithumb_price_BTC: "Bithumb_get_price_by_currency pf1 net2 ''BTC'' = Inr 100"
  by (simp add: Bithumb_get_price_by_currency_def Bithumb_request_def upper_GET net2_def fetch_ok
      bithumb_ticker_def pf1_def)

lemma bithumb_price_UNKNOWNCOIN: "Bithumb_get_price_by_currency pf1 net2 ''UNKNOWNCOIN'' = Inr 0"
  by (simp add: Bithumb_get_price_by_currency_def Bithumb_request_def upper_GET net2_def fetch_404)

lemma bithumb_report_net2:
  "Bithumb_get_report pf1 net2 (Some [''BTC'', ''UNKNOWNCOIN'']) =
     Inr [report_line (JStr ''BTC'') 1 100 100, report_line (JStr ''UNKNOWNCOIN'') 5 0 0]"
  by (simp add: Bithumb_get_report_def bithumb_balances_requested[OF bithumb_accounts_net2]
      requested_entry_def Bithumb_row_def bithumb_price_BTC bithumb_price_UNKNOWNCOIN)

lemma bithumb_report_ETH_BTC:
  "Bithumb_get_report pf1 net2 (Some [''ETH'', ''BTC'']) =
     Inr [report_line (JStr ''ETH'') 2 25 50, report_line (JStr ''BTC'') 1 100 100]"
  by (simp add: Bithumb_get_report_def bithumb_balances_requested[OF bithumb_accounts_net2]
      requested_entry_def Bithumb_row_def bithumb_price_BTC bithumb_price_ETH)

lemma coinone_balances_net2:
  "Coinone_get_balances pf1 net2 [''BTC'', ''UNKNOWNCOIN''] =
     Inr [\<lparr>currency = JStr ''BTC'', balance = 1\<rparr>,
          \<lparr>currency = JStr ''UNKNOWNCOIN'', balance = 5\<rparr>]"
  by (simp add: Coinone_get_balances_def Coinone_post_request_def net2_def ok_def
      response_json_def Coinone_balance_def acct_def pf1_def)

lemma coinone_price_BTC: "Coinone_get_price_by_currency pf1 net2 (JStr ''BTC'') = Inr (JNum 100)"
  by (simp add: Coinone_get_price_by_currency_def lower_BTC make_request_def net2_def fetch_ok
      pf1_def)

lemma coinone_price_UNKNOWNCOIN:
  "Coinone_get_price_by_currency pf1 net2 (JStr ''UNKNOWNCOIN'') =
     Inr (JStr ''Error: Invalid Coinone price data'')"
  by (simp add: Coinone_get_price_by_currency_def lower_UNKNOWNCOIN make_request_def net2_def
      fetch_ok)

lemma coinone_report_net2:
  "Coinone_get_report pf1 desc_sort net2 [''BTC'', ''UNKNOWNCOIN''] =
     Inr [report_line (JStr ''BTC'') 1 100 100]"
  by (simp add: Coinone_get_report_def coinone_balances_net2 Coinone_row_def coinone_price_BTC
      coinone_price_UNKNOWNCOIN sort_values_def desc_sort_def)

text \<open>What the Coinone price lookup returns is a number or a string that holds
  \<open>Error\<close>.\<close>

lemma error_texts:
  "py_in ''Error'' ''Error: Invalid Coinone price data..''"
  "py_in ''Error'' ''Error: Invalid Coinone price data''"
  by simp_all

lemma coinone_ticker_shape:
  assumes "and_then (py_get data ''errorCode'' JNull) (\<lambda>ec.
             if ec = JStr ''0'' then
               and_then (py_get data ''last'' (JNum 0)) (\<lambda>x.
                 case py_float pf x of
                   Inl e \<Rightarrow> Inr (JStr ''Error: Invalid Coinone price data..'')
                 | Inr p \<Rightarrow> Inr (JNum p))
             else Inr (JStr ''Error: Invalid Coinone price data'')) = Inr v"
  shows "(\<exists>p. v = JNum p) \<or> (\<exists>s. v = JStr s \<and> py_in ''Error'' s)"
proof -
  from assms obtain ec where
    v: "(if ec = JStr ''0'' then
           and_then (py_get data ''last'' (JNum 0)) (\<lambda>x.
             case py_float pf x of
               Inl e \<Rightarrow> Inr (JStr ''Error: Invalid Coinone price data..'')
             | Inr p \<Rightarrow> Inr (JNum p))
         else Inr (JStr ''Error: Invalid Coinone price data'')) = Inr v"
    unfolding and_then_eq_Inr by blast
  show ?thesis
  proof (cases "ec = JStr ''0''")
    case True
    show ?thesis
    proof (cases "py_get data ''last'' (JNum 0)")
      case (Inl e)
      with v True show ?thesis by simp
    next
      case (Inr x)
      with v True show ?thesis
        using error_texts(1) by (cases "py_float pf x") auto
    qed
  next
    case False
    with v show ?thesis using error_texts(2) by auto
  qed
qed

lemma coinone_price_shape:
  assumes "Coinone_get_price_by_currency pf net coin = Inr v"
  shows "(\<exists>p. v = JNum p) \<or> (\<exists>s. v = JStr s \<and> py_in ''Error'' s)"
proof (cases coin)
  case (JStr c)
  show ?thesis
  proof (cases "lower c = ''krw''")
    case True
    with assms JStr show ?thesis by (auto simp: Coinone_get_price_by_currency_def)
  next
    case False
    with assms JStr show ?thesis
      unfolding Coinone_get_price_by_currency_def Let_def
      by (intro coinone_ticker_shape[of "make_request net
            (''https://api.coinone.co.kr/ticker/?currency='' @ c)" pf v])
        (simp del: append.simps)
  qed
qed (use assms in \<open>simp_all add: Coinone_get_price_by_currency_def\<close>)

lemma coinone_row_elem:
  "Coinone_row pf net b = Inr o' \<Longrightarrow>
     o' = (if Coinone_priced pf net b then Some (Coinone_line pf net b) else None)"
proof -
  assume a: "Coinone_row pf net b = Inr o'"
  then obtain v where v: "Coinone_get_price_by_currency pf net (currency b) = Inr v"
    by (auto simp: Coinone_row_def and_then_eq_Inr)
  with a show ?thesis
    by (cases v) (auto simp: Coinone_row_def Coinone_priced_def Coinone_line_def
        split: if_splits)
qed

lemma coinone_report_lines:
  assumes "sorts_descending srt"
    and "Coinone_get_balances pf net cs = Inr bs"
    and "Coinone_get_report pf srt net cs = Inr rows"
  shows "mset rows = mset (map (Coinone_line pf net) (filter (Coinone_priced pf net) bs))"
    and "sorted_wrt (\<lambda>a b. total a \<ge> total b) rows"
proof -
  from assms(2,3) obtain built where b: "try_filter_map (Coinone_row pf net) bs = Inr built"
    and s: "sort_values srt built = Inr rows"
    by (auto simp: Coinone_get_report_def and_then_eq_Inr)
  have "built = map (Coinone_line pf net) (filter (Coinone_priced pf net) bs)"
    by (rule try_filter_map_as_filter[OF b]) (auto dest: coinone_row_elem)
  with sort_values_sorted[OF assms(1) s]
  show "mset rows = mset (map (Coinone_line pf net) (filter (Coinone_priced pf net) bs))"
    and "sorted_wrt (\<lambda>a b. total a \<ge> total b) rows"
    by simp_all
qed

lemma bithumb_row_currency: "Bithumb_row pf net a = Inr l \<Longrightarrow> currency l = currency a"
  by (auto simp: Bithumb_row_def Let_def and_then_eq_Inr report_line_def)

lemma bithumb_report_keeps_all:
  assumes "Bithumb_get_report pf net (Some cs) = Inr rows"
  shows "map currency rows = map JStr cs"
proof -
  from assms obtain accounts where g: "Bithumb_get_balances pf net (Some cs) = Inr accounts"
    and r: "(if accounts = [] then Inr [] else try_map (Bithumb_row pf net) accounts) = Inr rows"
    by (auto simp: Bithumb_get_report_def and_then_eq_Inr)
  from g obtain accs0 where "Bithumb_get_balances pf net None = Inr accs0"
    by (auto simp: Bithumb_get_balances_def Let_def and_then_eq_Inr)
  from bithumb_balances_requested[OF this, of cs] g
  have accounts: "accounts = map (requested_entry accs0) cs" by simp
  from r have "list_all2 (\<lambda>a l. Bithumb_row pf net a = Inr l) accounts rows"
    by (auto simp: try_map_Inr split: if_splits)
  then have "list_all2 (\<lambda>a l. currency l = currency a) accounts rows"
    by (rule list_all2_mono) (simp add: bithumb_row_currency)
  then have "map currency rows = map currency accounts"
    by (induction rule: list_all2_induct) auto
  then show ?thesis by (simp add: accounts requested_entry_currency)
qed

text \<open>A ticker request that fails, at the transport, by an error status or by a body that
  is not JSON, makes \<open>_request\<close> return the empty list and the Bithumb price lookup return
  0.0; the row of such a currency has price 0 and total 0.\<close>

lemma bithumb_price_failed:
  assumes "isl (fetch_json (net (GET (''https://api.bithumb.com/public/ticker/'' @ coin @ ''_KRW''))))"
  shows "Bithumb_get_price_by_currency pf net coin = Inr 0"
proof -
  from assms obtain m where
    "fetch_json (net (GET (''https://api.bithumb.com/public/ticker/'' @ coin @ ''_KRW''))) = Inl m"
    by (cases "fetch_json (net (GET (''https://api.bithumb.com/public/ticker/'' @ coin @ ''_KRW'')))")
      auto
  then show ?thesis
    by (simp add: Bithumb_get_price_by_currency_def Bithumb_request_def upper_GET)
qed

lemma bithumb_row_unpriced:
  assumes "Bithumb_row pf net a = Inr l" and "currency a = JStr c" and "c \<noteq> ''KRW''"
    and "Bithumb_get_price_by_currency pf net c = Inr 0"
  shows "unit_price l = 0 \<and> total l = 0"
  using assms by (auto simp: Bithumb_row_def Let_def report_line_def)

lemma bithumb_report_rows:
  assumes "Bithumb_get_report pf net (Some cs) = Inr rows"
  shows "\<exists>accounts. length accounts = length cs \<and>
           (\<forall>i < length cs. currency (accounts ! i) = JStr (cs ! i)) \<and>
           list_all2 (\<lambda>a l. Bithumb_row pf net a = Inr l) accounts rows"
proof -
  from assms obtain accounts where g: "Bithumb_get_balances pf net (Some cs) = Inr accounts"
    and r: "(if accounts = [] then Inr [] else try_map (Bithumb_row pf net) accounts) = Inr rows"
    by (auto simp: Bithumb_get_report_def and_then_eq_Inr)
  from g obtain accs0 where "Bithumb_get_balances pf net None = Inr accs0"
    by (auto simp: Bithumb_get_balances_def Let_def and_then_eq_Inr)
  from bithumb_balances_requested[OF this, of cs] g
  have accounts: "accounts = map (requested_entry accs0) cs" by simp
  from r have "list_all2 (\<lambda>a l. Bithumb_row pf net a = Inr l) accounts rows"
    by (auto simp: try_map_Inr split: if_splits)
  moreover have "length accounts = length cs"
    and "\<forall>i < length cs. currency (accounts ! i) = JStr (cs ! i)"
    by (simp_all add: accounts requested_entry_currency)
  ultimately show ?thesis by blast
qed

lemma bithumb_report_unpriced:
  assumes "Bithumb_get_report pf net (Some cs) = Inr rows" and "i < length cs"
    and "cs ! i \<noteq> ''KRW''"
    and "isl (fetch_json (net (GET (''https://api.bithumb.com/public/ticker/'' @ cs ! i @ ''_KRW''))))"
  shows "unit_price (rows ! i) = 0 \<and> total (rows ! i) = 0"
proof -
  from bithumb_report_rows[OF assms(1)] obtain accounts
    where len: "length accounts = length cs"
    and cur: "\<forall>i < length cs. currency (accounts ! i) = JStr (cs ! i)"
    and rows: "list_all2 (\<lambda>a l. Bithumb_row pf net a = Inr l) accounts rows"
    by blast
  from rows assms(2) len have "Bithumb_row pf net (accounts ! i) = Inr (rows ! i)"
    by (simp add: list_all2_conv_all_nth)
  moreover from cur assms(2) have "currency (accounts ! i) = JStr (cs ! i)" by simp
  moreover have "Bithumb_get_price_by_currency pf net (cs ! i) = Inr 0"
    using assms(4) by (rule bithumb_price_failed[of net "cs ! i" pf])
  ultimately show ?thesis
    using bithumb_row_unpriced[of pf net "accounts ! i" "rows ! i" "cs ! i"] assms(3) by blast
qed

lemma ticker_UNKNOWNCOIN_failed:
  "isl (fetch_json (net2 (GET (''https://api.bithumb.com/public/ticker/'' @ ''UNKNOWNCOIN''
                                 @ ''_KRW''))))"
  by (simp add: net2_def fetch_404)

text \<open>The user holds BTC and UNKNOWNCOIN at Bithumb and only BTC has a ticker: the Bithumb
  report has two rows, the one of UNKNOWNCOIN with price 0 and total 0.\<close>

theorem bithumb_keeps_unpriced_counterexample:
  "Bithumb_get_report pf1 net2 (Some [''BTC'', ''UNKNOWNCOIN'']) =
     Inr [report_line (JStr ''BTC'') 1 100 100, report_line (JStr ''UNKNOWNCOIN'') 5 0 0] \<and>
   length [report_line (JStr ''BTC'') 1 100 100, report_line (JStr ''UNKNOWNCOIN'') 5 0 0] \<noteq> 1"
  using bithumb_report_net2 by simp

text \<open>
  Claim C4, amended. For the Coinone client, a balance whose price lookup yields an explicit
  error string produces no row in the report built by \<open>get_report\<close>, while the other
  entries still produce theirs: whenever \<open>get_report\<close> returns, its rows are exactly the
  rows of the balances whose lookup gave a number, a zero included (with balances BTC and
  UNKNOWNCOIN of which only BTC has a price, the report has exactly one row). The Bithumb
  client skips nothing: whenever \<open>get_report(currencies)\<close> returns, it has one row per
  requested currency, in the order of the request; for a currency whose ticker request
  fails, at the transport, by an error status or by a body that is not JSON, the price
  lookup returns 0.0 and the row of that currency, KRW apart, is kept with price 0 and
  total 0.
\<close>

theorem report_skips_error_prices:
  "(sorts_descending srt \<and> Coinone_get_balances pf net cs = Inr bs \<and>
    Coinone_get_report pf srt net cs = Inr rows \<longrightarrow>
      mset rows = mset (map (Coinone_line pf net) (filter (Coinone_priced pf net) bs))) \<and>
   (Bithumb_get_report pf net (Some cs) = Inr rows' \<longrightarrow>
      map currency rows' = map JStr cs \<and>
      (\<forall>i < length cs.
         cs ! i \<noteq> ''KRW'' \<and>
         isl (fetch_json
                (net (GET (''https://api.bithumb.com/public/ticker/'' @ cs ! i @ ''_KRW'')))) \<longrightarrow>
           unit_price (rows' ! i) = 0 \<and> total (rows' ! i) = 0)) \<and>
   (isl (fetch_json (net (GET (''https://api.bithumb.com/public/ticker/'' @ coin @ ''_KRW'')))) \<longrightarrow>
      Bithumb_get_price_by_currency pf net coin = Inr 0)"
  using coinone_report_lines(1)[of srt pf net cs bs rows]
    bithumb_report_keeps_all[of pf net cs rows']
    bithumb_report_unpriced[of pf net cs rows']
    bithumb_price_failed[of net coin pf]
  by blast

theorem report_skips_error_prices_witness:
  "sorts_descending desc_sort \<and>
   Coinone_get_balances pf1 net2 [''BTC'', ''UNKNOWNCOIN''] =
     Inr [\<lparr>currency = JStr ''BTC'', balance = 1\<rparr>,
          \<lparr>currency = JStr ''UNKNOWNCOIN'', balance = 5\<rparr>] \<and>
   Coinone_get_report pf1 desc_sort net2 [''BTC'', ''UNKNOWNCOIN''] =
     Inr [report_line (JStr ''BTC'') 1 100 100] \<and>
   mset [report_line (JStr ''BTC'') 1 100 100] =
     mset (map (Coinone_line pf1 net2)
            (filter (Coinone_priced pf1 net2)
               [\<lparr>currency = JStr ''BTC'', balance = 1\<rparr>,
                \<lparr>currency = JStr ''UNKNOWNCOIN'', balance = 5\<rparr>])) \<and>
   Bithumb_get_report pf1 net2 (Some [''BTC'', ''UNKNOWNCOIN'']) =
     Inr [report_line (JStr ''BTC'') 1 100 100, report_line (JStr ''UNKNOWNCOIN'') 5 0 0] \<and>
   map currency [report_line (JStr ''BTC'') 1 100 100, report_line (JStr ''UNKNOWNCOIN'') 5 0 0]
     = map JStr [''BTC'', ''UNKNOWNCOIN''] \<and>
   isl (fetch_json (net2 (GET (''https://api.bithumb.com/public/ticker/'' @ ''UNKNOWNCOIN''
                                 @ ''_KRW'')))) \<and>
   Bithumb_get_price_by_currency pf1 net2 ''UNKNOWNCOIN'' = Inr 0 \<and>
   unit_price ([report_line (JStr ''BTC'') 1 100 100,
                report_line (JStr ''UNKNOWNCOIN'') 5 0 0] ! 1) = 0 \<and>
   total ([report_line (JStr ''BTC'') 1 100 100,
           report_line (JStr ''UNKNOWNCOIN'') 5 0 0] ! 1) = 0"
proof -
  note t = report_skips_error_prices[of desc_sort pf1 net2 "[''BTC'', ''UNKNOWNCOIN'']" _ _ _
      "''UNKNOWNCOIN''"]
  have a: "mset [report_line (JStr ''BTC'') 1 100 100] =
     mset (map (Coinone_line pf1 net2)
            (filter (Coinone_priced pf1 net2)
               [\<lparr>currency = JStr ''BTC'', balance = 1\<rparr>,
                \<lparr>currency = JStr ''UNKNOWNCOIN'', balance = 5\<rparr>]))"
    using t[THEN conjunct1, rule_format,
        OF conjI[OF desc_sort_sorts conjI[OF coinone_balances_net2 coinone_report_net2]]]
    by simp
  note bt = t[THEN conjunct2, THEN conjunct1, rule_format, OF bithumb_report_net2]
  have b: "map currency
             [report_line (JStr ''BTC'') 1 100 100, report_line (JStr ''UNKNOWNCOIN'') 5 0 0]
           = map JStr [''BTC'', ''UNKNOWNCOIN'']"
    using bt by blast
  have f: "[''BTC'', ''UNKNOWNCOIN''] ! 1 \<noteq> ''KRW'' \<and>
           isl (fetch_json (net2 (GET (''https://api.bithumb.com/public/ticker/''
                   @ [''BTC'', ''UNKNOWNCOIN''] ! 1 @ ''_KRW''))))"
    using ticker_UNKNOWNCOIN_failed by simp
  have c: "unit_price ([report_line (JStr ''BTC'') 1 100 100,
                        report_line (JStr ''UNKNOWNCOIN'') 5 0 0] ! 1) = 0 \<and>
           total ([report_line (JStr ''BTC'') 1 100 100,
                   report_line (JStr ''UNKNOWNCOIN'') 5 0 0] ! 1) = 0"
    using bt[THEN conjunct2, rule_format, of 1] f by simp
  have d: "Bithumb_get_price_by_currency pf1 net2 ''UNKNOWNCOIN'' = Inr 0"
    using t[THEN conjunct2, THEN conjunct2, rule_format, OF ticker_UNKNOWNCOIN_failed] .
  show ?thesis
    using a b c d desc_sort_sorts coinone_balances_net2 coinone_report_net2 bithumb_report_net2
      ticker_UNKNOWNCOIN_failed
    by blast
qed

text \<open>The clients that sort: whenever the report is returned it is in descending order of
  \<open>total\<close>, and with a sorter that keeps ties in place, rows of equal total stay in the
  order in which the loop built them.\<close>

lemma coinone_report_sorted:
  assumes "sorts_descending srt" and "Coinone_get_report pf srt net cs = Inr rows"
  shows "sorted_wrt (\<lambda>a b. total a \<ge> total b) rows"
  using assms
  by (auto simp: Coinone_get_report_def and_then_eq_Inr dest: sort_values_sorted(2))

lemma upbit_report_sorted:
  assumes "sorts_descending srt" and "Upbit_get_report pf srt net cs = Inr rows"
  shows "sorted_wrt (\<lambda>a b. total a \<ge> total b) rows"
  using assms
  by (auto simp: Upbit_get_report_def and_then_eq_Inr dest: sort_values_sorted(2))

lemma sort_values_stable:
  assumes "stable_sorter srt" and "sort_values srt built = Inr rows"
  shows "filter (\<lambda>r. total r = k) rows = filter (\<lambda>r. total r = k) built"
  using assms by (auto simp: sort_values_def stable_sorter_def split: if_splits)

text \<open>
  Claim C5 on the Bithumb client: asked for ETH and BTC, \<open>get_report\<close> returns the ETH row
  of total 50 before the BTC row of total 100. The rows are in the order of the request, not
  in descending order of \<open>total\<close>.
\<close>

theorem bithumb_report_not_sorted:
  "Bithumb_get_report pf1 net2 (Some [''ETH'', ''BTC'']) =
     Inr [report_line (JStr ''ETH'') 2 25 50, report_line (JStr ''BTC'') 1 100 100] \<and>
   \<not> sorted_wrt (\<lambda>a b. total a \<ge> total b)
       [report_line (JStr ''ETH'') 2 25 50, report_line (JStr ''BTC'') 1 100 100]"
  using bithumb_report_ETH_BTC by (simp add: report_line_def)

subsection \<open>Non-zero balances\<close>

lemma lower_upper_char: "lower_char (upper_char c) = lower_char c"
  unfolding lower_char_def upper_char_def Let_def by auto

lemma upper_lower_char: "upper_char (lower_char c) = upper_char c"
  unfolding lower_char_def upper_char_def Let_def by auto

lemma lower_upper: "lower (upper s) = lower s"
  by (simp add: lower_def upper_def lower_upper_char)

lemma upper_lower: "upper (lower s) = upper s"
  by (simp add: lower_def upper_def upper_lower_char)

text \<open>Comparing the upper-cased code with a list of upper-case codes is comparing without
  regard to case; likewise for lower case.\<close>

lemma upper_in_iff:
  assumes "\<forall>e \<in> set excl. upper e = e"
  shows "upper c \<in> set excl \<longleftrightarrow> excluded_ci excl c"
proof
  assume "upper c \<in> set excl"
  then have "lower (upper c) \<in> lower ` set excl" by (rule imageI)
  then show "excluded_ci excl c" by (simp add: excluded_ci_def lower_upper)
next
  assume "excluded_ci excl c"
  then obtain e where e: "e \<in> set excl" and l: "lower c = lower e"
    by (auto simp: excluded_ci_def)
  have "upper c = upper (lower c)" by (simp add: upper_lower)
  also have "\<dots> = upper e" by (simp add: l upper_lower)
  also have "\<dots> = e" using assms e by simp
  finally show "upper c \<in> set excl" using e by simp
qed

lemma lower_in_iff:
  assumes "\<forall>e \<in> set excl. lower e = e"
  shows "lower c \<in> set excl \<longleftrightarrow> excluded_ci excl c"
proof -
  have "lower ` set excl = set excl" using assms by force
  then show ?thesis by (simp add: excluded_ci_def)
qed

lemma bithumb_excluded_upper: "\<forall>e \<in> set Bithumb_EXCLUDED_COINS. upper e = e"
  unfolding Bithumb_EXCLUDED_COINS_def by code_simp

lemma upbit_excluded_upper: "\<forall>e \<in> set Upbit_EXCLUDED_COINS. upper e = e"
  unfolding Upbit_EXCLUDED_COINS_def by code_simp

lemma korbit_excluded_lower: "\<forall>e \<in> set Korbit_EXCLUDED_COINS. lower e = e"
  unfolding Korbit_EXCLUDED_COINS_def by code_simp

lemma bithumb_nonzero:
  assumes "Bithumb_get_balances pf net None = Inr bs"
    and "\<forall>b \<in> set bs. 0 < balance b \<longrightarrow> is_str (currency b)"
  shows "Bithumb_get_nonzero_balances pf net =
           Inr (filter (\<lambda>b. 0 < balance b \<and>
                            \<not> excluded_json Bithumb_EXCLUDED_COINS (currency b)) bs)"
proof -
  have "try_filter_map Bithumb_keep bs =
          Inr (map id (filter (\<lambda>b. 0 < balance b \<and>
                 \<not> excluded_json Bithumb_EXCLUDED_COINS (currency b)) bs))"
  proof (rule try_filter_map_filter)
    fix b assume "b \<in> set bs"
    with assms(2) have s: "0 < balance b \<longrightarrow> is_str (currency b)" by simp
    show "Bithumb_keep b =
            Inr (if 0 < balance b \<and> \<not> excluded_json Bithumb_EXCLUDED_COINS (currency b)
                 then Some (id b) else None)"
      using s upper_in_iff[OF bithumb_excluded_upper]
      by (cases "currency b") (auto simp: Bithumb_keep_def is_str_def excluded_json_def)
  qed
  with assms(1) show ?thesis by (simp add: Bithumb_get_nonzero_balances_def)
qed

lemma map_of_replace:
  "map_of kvs k = Some v \<Longrightarrow>
     map_of (map (\<lambda>kv. if fst kv = k then (fst kv, w) else kv) kvs) k = Some w"
  by (induction kvs) auto

lemma upbit_sum_balance:
  "Upbit_sum pf x = Inr b \<Longrightarrow> \<exists>r. subscript b ''balance'' = Inr (JNum r)"
  by (cases x) (auto simp: Upbit_sum_def and_then_eq_Inr map_of_replace split: option.splits)

lemma upbit_balances_shape:
  assumes "Upbit_get_balances pf net None = Inr bs" and "b \<in> set bs"
  shows "\<exists>r. subscript b ''balance'' = Inr (JNum r)"
proof -
  from assms(1) have "bs = [] \<or> (\<exists>items. try_map (Upbit_sum pf) items = Inr bs)"
    by (auto simp: Upbit_get_balances_def and_then_eq_Inr split: http.splits if_splits sum.splits)
  with assms(2) obtain items where "list_all2 (\<lambda>x y. Upbit_sum pf x = Inr y) items bs"
    by (auto simp: try_map_Inr)
  with assms(2) obtain x where "Upbit_sum pf x = Inr b"
    by (auto simp: list_all2_conv_all_nth in_set_conv_nth)
  then show ?thesis by (rule upbit_sum_balance)
qed

lemma upbit_nonzero:
  assumes "Upbit_get_balances pf net None = Inr bs"
    and "\<forall>b \<in> set bs. 0 < Upbit_total b \<longrightarrow> is_str (Upbit_currency b)"
  shows "Upbit_get_nonzero_balances pf net =
           Inr (filter (\<lambda>b. 0 < Upbit_total b \<and>
                            \<not> excluded_json Upbit_EXCLUDED_COINS (Upbit_currency b)) bs)"
proof -
  have "try_filter_map (Upbit_keep pf) bs =
          Inr (map id (filter (\<lambda>b. 0 < Upbit_total b \<and>
                 \<not> excluded_json Upbit_EXCLUDED_COINS (Upbit_currency b)) bs))"
  proof (rule try_filter_map_filter)
    fix b assume b: "b \<in> set bs"
    with assms(2) have s: "0 < Upbit_total b \<longrightarrow> is_str (Upbit_currency b)" by simp
    from upbit_balances_shape[OF assms(1) b] obtain r
      where r: "subscript b ''balance'' = Inr (JNum r)" by blast
    show "Upbit_keep pf b =
            Inr (if 0 < Upbit_total b \<and> \<not> excluded_json Upbit_EXCLUDED_COINS (Upbit_currency b)
                 then Some (id b) else None)"
    proof (cases "0 < r")
      case False
      with r show ?thesis by (simp add: Upbit_keep_def Upbit_total_def)
    next
      case True
      with s r obtain c where c: "Upbit_currency b = JStr c"
        by (cases "Upbit_currency b") (auto simp: Upbit_total_def is_str_def)
      then have "subscript b ''currency'' = Inr (JStr c)"
        by (cases "subscript b ''currency''") (auto simp: Upbit_currency_def)
      with True r c upper_in_iff[OF upbit_excluded_upper, of c] show ?thesis
        by (simp add: Upbit_keep_def Upbit_total_def excluded_json_def)
    qed
  qed
  with assms(1) show ?thesis by (simp add: Upbit_get_nonzero_balances_def)
qed

text \<open>The normalisers read the total of a raw entry as available plus locked.\<close>

lemma bithumb_account_raw:
  "raw_entry pf ''balance'' ''locked'' x = Some t \<Longrightarrow> Bithumb_account pf x = Inr (to_balance t)"
  by (cases t)
    (auto simp: raw_entry_def Bithumb_account_def to_balance_def and_then_def
      split: sum.splits)

lemma bithumb_balances_raw:
  assumes "fetch_json (net (GET ''https://api.bithumb.com/v1/accounts'')) = Inr (JArr items)"
    and "list_all2 (\<lambda>x t. raw_entry pf ''balance'' ''locked'' x = Some t) items ts"
  shows "Bithumb_get_balances pf net None = Inr (map to_balance ts)"
proof -
  from assms(2) have "list_all2 (\<lambda>x b. Bithumb_account pf x = Inr b) items (map to_balance ts)"
    by (induction rule: list_all2_induct) (auto simp: bithumb_account_raw)
  then have "try_map (Bithumb_account pf) items = Inr (map to_balance ts)"
    by (simp add: try_map_Inr)
  with assms(1) show ?thesis
    by (simp add: Bithumb_get_balances_def Bithumb_request_def upper_GET)
qed

lemma nonzero_only_balances:
  "filter (\<lambda>b. 0 < balance b \<and> \<not> ex (currency b)) (map to_balance ts) =
     map to_balance (nonzero_only ex ts)"
  by (induction ts) (auto simp: nonzero_only_def to_balance_def)

lemma bithumb_nonzero_raw:
  assumes "fetch_json (net (GET ''https://api.bithumb.com/v1/accounts'')) = Inr (JArr items)"
    and "list_all2 (\<lambda>x t. raw_entry pf ''balance'' ''locked'' x = Some t) items ts"
    and "\<forall>(c, a, l) \<in> set ts. 0 < a + l \<longrightarrow> is_str c"
  shows "Bithumb_get_nonzero_balances pf net =
           Inr (map to_balance (nonzero_only (excluded_json Bithumb_EXCLUDED_COINS) ts))"
proof -
  have "\<forall>b \<in> set (map to_balance ts). 0 < balance b \<longrightarrow> is_str (currency b)"
    using assms(3) by (auto simp: to_balance_def)
  from bithumb_nonzero[OF bithumb_balances_raw[of net items pf ts, OF assms(1,2)] this]
  show ?thesis by (simp add: nonzero_only_balances)
qed

lemma map_of_replace_other:
  "k' \<noteq> k \<Longrightarrow>
     map_of (map (\<lambda>kv. if fst kv = k then (fst kv, w) else kv) kvs) k' = map_of kvs k'"
  by (induction kvs) auto

lemma upbit_sum_raw:
  assumes "raw_entry pf ''balance'' ''locked'' x = Some (c, a, l)"
  shows "\<exists>b. Upbit_sum pf x = Inr b \<and> Upbit_currency b = c \<and> Upbit_total b = a + l"
proof (cases x)
  case (JObj kvs)
  from assms JObj obtain vb vl where c: "map_of kvs ''currency'' = Some c"
    and vb: "map_of kvs ''balance'' = Some vb" and a: "py_float pf vb = Inr a"
    and vl: "map_of kvs ''locked'' = Some vl" and l: "py_float pf vl = Inr l"
    by (auto simp: raw_entry_def and_then_def split: sum.splits option.splits)
  let ?b = "JObj (map (\<lambda>kv. if fst kv = ''balance'' then (fst kv, JNum (a + l)) else kv) kvs)"
  have "Upbit_sum pf x = Inr ?b"
    using JObj vb a vl l by (simp add: Upbit_sum_def)
  moreover have "Upbit_currency ?b = c"
    using c by (simp add: Upbit_currency_def map_of_replace_other)
  moreover have "Upbit_total ?b = a + l"
    using map_of_replace[OF vb, of "JNum (a + l)"] by (simp add: Upbit_total_def)
  ultimately show ?thesis by blast
qed (use assms in \<open>simp_all add: raw_entry_def\<close>)

lemma upbit_balances_raw:
  assumes "net (GET ''https://api.upbit.com/v1/accounts'') = Reply 200 (JsonBody (JArr items))"
    and "list_all2 (\<lambda>x t. raw_entry pf ''balance'' ''locked'' x = Some t) items ts"
  shows "\<exists>bs. Upbit_get_balances pf net None = Inr bs \<and>
              list_all2 (\<lambda>b t. Upbit_currency b = fst t \<and> Upbit_total b = fst (snd t) + snd (snd t))
                bs ts"
proof -
  from assms(2) have "\<exists>bs. list_all2 (\<lambda>x b. Upbit_sum pf x = Inr b) items bs \<and>
      list_all2 (\<lambda>b t. Upbit_currency b = fst t \<and> Upbit_total b = fst (snd t) + snd (snd t))
        bs ts"
  proof (induction rule: list_all2_induct)
    case Nil
    then show ?case by simp
  next
    case (Cons x xs t ts)
    obtain c a l where t: "t = (c, a, l)" by (cases t)
    from upbit_sum_raw[of pf x c a l] Cons(1) t obtain b where
      "Upbit_sum pf x = Inr b" "Upbit_currency b = c" "Upbit_total b = a + l" by auto
    moreover from Cons.IH obtain bs where "list_all2 (\<lambda>x b. Upbit_sum pf x = Inr b) xs bs"
      "list_all2 (\<lambda>b t. Upbit_currency b = fst t \<and> Upbit_total b = fst (snd t) + snd (snd t))
         bs ts" by blast
    ultimately have "list_all2 (\<lambda>x b. Upbit_sum pf x = Inr b) (x # xs) (b # bs) \<and>
      list_all2 (\<lambda>b t. Upbit_currency b = fst t \<and> Upbit_total b = fst (snd t) + snd (snd t))
        (b # bs) (t # ts)"
      by (simp add: t)
    then show ?case by blast
  qed
  then obtain bs where m: "try_map (Upbit_sum pf) items = Inr bs"
    and r: "list_all2 (\<lambda>b t. Upbit_currency b = fst t \<and>
                              Upbit_total b = fst (snd t) + snd (snd t)) bs ts"
    by (auto simp: try_map_Inr)
  from assms(1) m have "Upbit_get_balances pf net None = Inr bs"
    by (simp add: Upbit_get_balances_def response_json_def)
  with r show ?thesis by blast
qed

lemma nonzero_only_projection:
  assumes "list_all2 (\<lambda>b t. cur b = fst t \<and> tot b = fst (snd t) + snd (snd t)) bs ts"
  shows "map (\<lambda>b. (cur b, tot b)) (filter (\<lambda>b. 0 < tot b \<and> \<not> ex (cur b)) bs) =
           map (\<lambda>(c, a, l). (c, a + l)) (nonzero_only ex ts)"
  using assms
  by (induction rule: list_all2_induct) (auto simp: nonzero_only_def split: prod.splits)

lemma upbit_nonzero_raw:
  assumes "net (GET ''https://api.upbit.com/v1/accounts'') = Reply 200 (JsonBody (JArr items))"
    and "list_all2 (\<lambda>x t. raw_entry pf ''balance'' ''locked'' x = Some t) items ts"
    and "\<forall>(c, a, l) \<in> set ts. 0 < a + l \<longrightarrow> is_str c"
  shows "\<exists>r. Upbit_get_nonzero_balances pf net = Inr r \<and>
             map (\<lambda>b. (Upbit_currency b, Upbit_total b)) r =
               map (\<lambda>(c, a, l). (c, a + l))
                 (nonzero_only (excluded_json Upbit_EXCLUDED_COINS) ts)"
proof -
  from upbit_balances_raw[of net items pf ts, OF assms(1,2)] obtain bs
    where g: "Upbit_get_balances pf net None = Inr bs"
    and r: "list_all2 (\<lambda>b t. Upbit_currency b = fst t \<and>
                              Upbit_total b = fst (snd t) + snd (snd t)) bs ts"
    by blast
  from r assms(3) have "\<forall>b \<in> set bs. 0 < Upbit_total b \<longrightarrow> is_str (Upbit_currency b)"
    by (induction rule: list_all2_induct) (auto split: prod.splits)
  from upbit_nonzero[OF g this] nonzero_only_projection[OF r]
  show ?thesis by simp
qed

lemma coinone_keep_raw:
  "raw_entry pf ''available'' ''limit'' x = Some t \<Longrightarrow>
     Coinone_keep pf x =
       Inr (if 0 < fst (snd t) + snd (snd t) then Some (to_balance t) else None)"
  by (cases t)
    (auto simp: raw_entry_def Coinone_keep_def Coinone_balance_def to_balance_def and_then_def
      split: sum.splits)

lemma coinone_keep_all:
  assumes "list_all2 (\<lambda>x t. raw_entry pf ''available'' ''limit'' x = Some t) items ts"
  shows "try_filter_map (Coinone_keep pf) items =
           Inr (map to_balance (nonzero_only (\<lambda>c. False) ts))"
  using assms
  by (induction rule: list_all2_induct)
    (auto simp: coinone_keep_raw nonzero_only_def split: prod.splits)

lemma coinone_nonzero_raw:
  assumes "net (POST ''https://api.coinone.co.kr//v2.1/account/balance/all'' None) =
             Reply st (JsonBody (JObj kvs))"
    and "map_of kvs ''result'' = Some (JStr ''success'')"
    and "map_of kvs ''balances'' = Some (JArr items)"
    and "list_all2 (\<lambda>x t. raw_entry pf ''available'' ''limit'' x = Some t) items ts"
  shows "Coinone_get_nonzero_balances pf net =
           Inr (map to_balance (nonzero_only (\<lambda>c. False) ts))"
  using assms(1-3) coinone_keep_all[OF assms(4)]
  by (simp add: Coinone_get_nonzero_balances_def Coinone_post_request_def response_json_def)

lemma korbit_balance_raw:
  "raw_item pf kv = Some t \<Longrightarrow> Korbit_balance pf None kv = Inr (Some (to_kbalance t))"
  by (cases t)
    (auto simp: raw_item_def Korbit_balance_def to_kbalance_def and_then_def split: sum.splits)

lemma korbit_balances_all:
  assumes "list_all2 (\<lambda>kv t. raw_item pf kv = Some t) kvs ts"
  shows "try_filter_map (Korbit_balance pf None) kvs = Inr (map to_kbalance ts)"
  using assms by (induction rule: list_all2_induct) (auto simp: korbit_balance_raw)

lemma korbit_balances_raw:
  assumes "Korbit_get_headers now grant acquired self = (Inr hdr, self', n)"
    and "fetch_json (net (GET ''https://api.korbit.co.kr/v1/user/balances'')) = Inr (JObj kvs)"
    and "list_all2 (\<lambda>kv t. raw_item pf kv = Some t) kvs ts"
  shows "Korbit_get_balances pf now grant acquired net self None = (Inr (map to_kbalance ts), self')"
proof (cases "kvs = []")
  case True
  with assms show ?thesis by (simp add: Korbit_get_balances_def)
next
  case False
  with assms(1,2) korbit_balances_all[OF assms(3)] show ?thesis
    by (simp add: Korbit_get_balances_def)
qed

lemma korbit_nonzero:
  assumes "Korbit_get_balances pf now grant acquired net self None = (Inr bs, self')"
  shows "Korbit_get_nonzero_balances pf now grant acquired net self =
           (Inr (filter (\<lambda>kd. 0 < balance (snd kd) \<and>
                              \<not> excluded_ci Korbit_EXCLUDED_COINS (fst kd)) bs), self')"
  using assms lower_in_iff[OF korbit_excluded_lower]
  by (simp add: Korbit_get_nonzero_balances_def)

lemma nonzero_only_kbalances:
  "filter (\<lambda>kd. 0 < balance (snd kd) \<and> \<not> ex (fst kd)) (map to_kbalance ts) =
     map to_kbalance (nonzero_only ex ts)"
  by (induction ts) (auto simp: nonzero_only_def to_kbalance_def)

lemma korbit_nonzero_raw:
  assumes "Korbit_get_headers now grant acquired self = (Inr hdr, self', n)"
    and "fetch_json (net (GET ''https://api.korbit.co.kr/v1/user/balances'')) = Inr (JObj kvs)"
    and "list_all2 (\<lambda>kv t. raw_item pf kv = Some t) kvs ts"
  shows "Korbit_get_nonzero_balances pf now grant acquired net self =
           (Inr (map to_kbalance (nonzero_only (excluded_ci Korbit_EXCLUDED_COINS) ts)), self')"
  using korbit_nonzero[OF korbit_balances_raw[of now grant acquired self hdr self' n net kvs pf ts,
        OF assms]]
  by (simp add: nonzero_only_kbalances)

lemma excluded_eval:
  "\<not> excluded_ci Bithumb_EXCLUDED_COINS ''ETH''"
  "\<not> excluded_ci Bithumb_EXCLUDED_COINS ''BTC''"
  "excluded_ci Bithumb_EXCLUDED_COINS ''ethw''"
  "\<not> excluded_ci Upbit_EXCLUDED_COINS ''ETH''"
  "\<not> excluded_ci Upbit_EXCLUDED_COINS ''BTC''"
  "excluded_ci Upbit_EXCLUDED_COINS ''EthW''"
  "\<not> excluded_ci Korbit_EXCLUDED_COINS ''btc''"
  "excluded_ci Korbit_EXCLUDED_COINS ''ETHW''"
  unfolding excluded_ci_def Bithumb_EXCLUDED_COINS_def Upbit_EXCLUDED_COINS_def
    Korbit_EXCLUDED_COINS_def
  by code_simp+

lemma coinone_nonzero_net2:
  "Coinone_get_nonzero_balances pf1 net2 =
     Inr [\<lparr>currency = JStr ''BTC'', balance = 1\<rparr>, \<lparr>currency = JStr ''ETHW'', balance = 3\<rparr>]"
  by (simp add: Coinone_get_nonzero_balances_def Coinone_post_request_def net2_def ok_def
      response_json_def Coinone_keep_def Coinone_balance_def acct_def pf1_def)

lemma headers_session120:
  "Korbit_get_headers 1001 grant120 1001 session120 = (Inr (JStr ''tok''), session120, 0)"
  by (simp add: Korbit_get_headers_def Korbit_get_access_token_def session120_def)

text \<open>The user holds ETHW at Coinone: \<open>get_nonzero_balances\<close> of the Coinone client returns
  it, with its positive total, next to the BTC.\<close>

theorem coinone_returns_ethw_counterexample:
  "Coinone_get_nonzero_balances pf1 net2 =
     Inr [\<lparr>currency = JStr ''BTC'', balance = 1\<rparr>, \<lparr>currency = JStr ''ETHW'', balance = 3\<rparr>]"
  by (rule coinone_nonzero_net2)

text \<open>
  Claim C6, amended. For the Bithumb, Upbit and Korbit clients, \<open>get_nonzero_balances\<close>
  returns exactly the balances of the raw payload whose total, available plus locked, is
  strictly greater than 0 and whose currency code, compared without regard to letter case,
  is not in the client's list of excluded coins (\<open>P, ETHW, ETHF\<close> for Bithumb, \<open>ETHW, ETHF\<close>
  for Upbit and Korbit), each with that total as its balance; an excluded code is left out
  whatever its total. The Coinone client has no list of excluded coins: it returns exactly
  the balances whose total, available plus limit, is strictly greater than 0, a positive
  ETHW included.
\<close>

theorem nonzero_balances_filter:
  "(fetch_json (net (GET ''https://api.bithumb.com/v1/accounts'')) = Inr (JArr bitems) \<and>
    list_all2 (\<lambda>x t. raw_entry pf ''balance'' ''locked'' x = Some t) bitems bs \<and>
    (\<forall>(c, a, l) \<in> set bs. 0 < a + l \<longrightarrow> is_str c) \<longrightarrow>
      Bithumb_get_nonzero_balances pf net =
        Inr (map to_balance (nonzero_only (excluded_json Bithumb_EXCLUDED_COINS) bs))) \<and>
   (net (GET ''https://api.upbit.com/v1/accounts'') = Reply 200 (JsonBody (JArr uitems)) \<and>
    list_all2 (\<lambda>x t. raw_entry pf ''balance'' ''locked'' x = Some t) uitems us \<and>
    (\<forall>(c, a, l) \<in> set us. 0 < a + l \<longrightarrow> is_str c) \<longrightarrow>
      (\<exists>r. Upbit_get_nonzero_balances pf net = Inr r \<and>
           map (\<lambda>b. (Upbit_currency b, Upbit_total b)) r =
             map (\<lambda>(c, a, l). (c, a + l))
               (nonzero_only (excluded_json Upbit_EXCLUDED_COINS) us))) \<and>
   (net (POST ''https://api.coinone.co.kr//v2.1/account/balance/all'' None) =
      Reply st (JsonBody (JObj ckvs)) \<and>
    map_of ckvs ''result'' = Some (JStr ''success'') \<and>
    map_of ckvs ''balances'' = Some (JArr citems) \<and>
    list_all2 (\<lambda>x t. raw_entry pf ''available'' ''limit'' x = Some t) citems cs \<longrightarrow>
      Coinone_get_nonzero_balances pf net =
        Inr (map to_balance (nonzero_only (\<lambda>c. False) cs))) \<and>
   (Korbit_get_headers now grant acquired self = (Inr hdr, self', n) \<and>
    fetch_json (net (GET ''https://api.korbit.co.kr/v1/user/balances'')) = Inr (JObj kkvs) \<and>
    list_all2 (\<lambda>kv t. raw_item pf kv = Some t) kkvs ks \<longrightarrow>
      Korbit_get_nonzero_balances pf now grant acquired net self =
        (Inr (map to_kbalance (nonzero_only (excluded_ci Korbit_EXCLUDED_COINS) ks)), self'))"
  using bithumb_nonzero_raw[of net bitems pf bs] upbit_nonzero_raw[of net uitems pf us]
    coinone_nonzero_raw[of net st ckvs citems pf cs]
    korbit_nonzero_raw[of now grant acquired self hdr self' n net kkvs pf ks]
  by blast

theorem nonzero_balances_filter_witness:
  "Bithumb_get_nonzero_balances pf1 net3 =
     Inr [\<lparr>currency = JStr ''ETH'', balance = 2\<rparr>, \<lparr>currency = JStr ''BTC'', balance = 1\<rparr>] \<and>
   (\<exists>r. Upbit_get_nonzero_balances pf1 net3 = Inr r \<and>
        map (\<lambda>b. (Upbit_currency b, Upbit_total b)) r = [(JStr ''ETH'', 2), (JStr ''BTC'', 1)]) \<and>
   Coinone_get_nonzero_balances pf1 net3 =
     Inr [\<lparr>currency = JStr ''BTC'', balance = 1\<rparr>, \<lparr>currency = JStr ''ETHW'', balance = 3\<rparr>] \<and>
   Korbit_get_nonzero_balances pf1 1001 grant120 1001 net3 session120 =
     (Inr [(''btc'', \<lparr>currency = JStr ''btc'', balance = 1, available = 0, locked = 1\<rparr>)],
      session120)"
proof -
  let ?bitems = "[acct ''ETH'' ''balance'' ''1'' ''locked'' ''1'',
                  acct ''BTC'' ''balance'' ''0'' ''locked'' ''1'',
                  acct ''ethw'' ''balance'' ''2'' ''locked'' ''1'',
                  acct ''XRP'' ''balance'' ''0'' ''locked'' ''0'']"
  let ?bs = "[(JStr ''ETH'', 1::real, 1::real), (JStr ''BTC'', 0, 1), (JStr ''ethw'', 2, 1),
              (JStr ''XRP'', 0, 0)]"
  let ?uitems = "[acct ''ETH'' ''balance'' ''1'' ''locked'' ''1'',
                  acct ''BTC'' ''balance'' ''0'' ''locked'' ''1'',
                  acct ''EthW'' ''balance'' ''2'' ''locked'' ''1'',
                  acct ''XRP'' ''balance'' ''0'' ''locked'' ''0'']"
  let ?us = "[(JStr ''ETH'', 1::real, 1::real), (JStr ''BTC'', 0, 1), (JStr ''EthW'', 2, 1),
              (JStr ''XRP'', 0, 0)]"
  let ?citems = "[acct ''BTC'' ''available'' ''0'' ''limit'' ''1'',
                  acct ''XRP'' ''available'' ''0'' ''limit'' ''0'',
                  acct ''ETHW'' ''available'' ''2'' ''limit'' ''1'']"
  let ?ckvs = "[(''result'', JStr ''success''), (''balances'', JArr ?citems)]"
  let ?cs = "[(JStr ''BTC'', 0::real, 1::real), (JStr ''XRP'', 0, 0), (JStr ''ETHW'', 2, 1)]"
  let ?kkvs = "[(''btc'', JObj [(''available'', JStr ''0''), (''trade_in_use'', JStr ''1'')]),
                (''ETHW'', JObj [(''available'', JStr ''2''), (''trade_in_use'', JStr ''1'')]),
                (''xrp'', JObj [(''available'', JStr ''0''), (''trade_in_use'', JStr ''0'')])]"
  let ?ks = "[(''btc'', 0::real, 1::real), (''ETHW'', 2, 1), (''xrp'', 0, 0)]"
  note t = nonzero_balances_filter[of net3 ?bitems pf1 ?bs ?uitems ?us 200 ?ckvs ?citems ?cs
      1001 grant120 1001 session120 "JStr ''tok''" session120 0 ?kkvs ?ks]
  have hb: "fetch_json (net3 (GET ''https://api.bithumb.com/v1/accounts'')) = Inr (JArr ?bitems) \<and>
            list_all2 (\<lambda>x t. raw_entry pf1 ''balance'' ''locked'' x = Some t) ?bitems ?bs \<and>
            (\<forall>(c, a, l) \<in> set ?bs. 0 < a + l \<longrightarrow> is_str c)"
    by (simp add: net3_def fetch_ok raw_entry_def acct_def pf1_def is_str_def)
  have hu: "net3 (GET ''https://api.upbit.com/v1/accounts'') = Reply 200 (JsonBody (JArr ?uitems)) \<and>
            list_all2 (\<lambda>x t. raw_entry pf1 ''balance'' ''locked'' x = Some t) ?uitems ?us \<and>
            (\<forall>(c, a, l) \<in> set ?us. 0 < a + l \<longrightarrow> is_str c)"
    by (simp add: net3_def ok_def raw_entry_def acct_def pf1_def is_str_def)
  have hc: "net3 (POST ''https://api.coinone.co.kr//v2.1/account/balance/all'' None) =
              Reply 200 (JsonBody (JObj ?ckvs)) \<and>
            map_of ?ckvs ''result'' = Some (JStr ''success'') \<and>
            map_of ?ckvs ''balances'' = Some (JArr ?citems) \<and>
            list_all2 (\<lambda>x t. raw_entry pf1 ''available'' ''limit'' x = Some t) ?citems ?cs"
    by (simp add: net3_def ok_def raw_entry_def acct_def pf1_def)
  have hk: "Korbit_get_headers 1001 grant120 1001 session120 = (Inr (JStr ''tok''), session120, 0) \<and>
            fetch_json (net3 (GET ''https://api.korbit.co.kr/v1/user/balances'')) = Inr (JObj ?kkvs) \<and>
            list_all2 (\<lambda>kv t. raw_item pf1 kv = Some t) ?kkvs ?ks"
    by (simp add: headers_session120 net3_def fetch_ok raw_item_def pf1_def)
  have a: "Bithumb_get_nonzero_balances pf1 net3 =
     Inr [\<lparr>currency = JStr ''ETH'', balance = 2\<rparr>, \<lparr>currency = JStr ''BTC'', balance = 1\<rparr>]"
    using t[THEN conjunct1, rule_format, OF hb]
    by (simp add: nonzero_only_def to_balance_def excluded_json_def excluded_eval)
  have b: "\<exists>r. Upbit_get_nonzero_balances pf1 net3 = Inr r \<and>
        map (\<lambda>b. (Upbit_currency b, Upbit_total b)) r = [(JStr ''ETH'', 2), (JStr ''BTC'', 1)]"
    using t[THEN conjunct2, THEN conjunct1, rule_format, OF hu]
    by (simp add: nonzero_only_def excluded_json_def excluded_eval)
  have c: "Coinone_get_nonzero_balances pf1 net3 =
     Inr [\<lparr>currency = JStr ''BTC'', balance = 1\<rparr>, \<lparr>currency = JStr ''ETHW'', balance = 3\<rparr>]"
    using t[THEN conjunct2, THEN conjunct2, THEN conjunct1, rule_format, OF hc]
    by (simp add: nonzero_only_def to_balance_def)
  have d: "Korbit_get_nonzero_balances pf1 1001 grant120 1001 net3 session120 =
     (Inr [(''btc'', \<lparr>currency = JStr ''btc'', balance = 1, available = 0, locked = 1\<rparr>)],
      session120)"
    using t[THEN conjunct2, THEN conjunct2, THEN conjunct2, rule_format, OF hk]
    by (simp add: nonzero_only_def to_kbalance_def excluded_eval)
  show ?thesis using a b c d by blast
qed

subsection \<open>Transport failures\<close>

text \<open>With the network down, the Bithumb client and the price lookup of the Upbit client
  degrade to an empty or zero result.\<close>

lemma bithumb_degrades:
  "Bithumb_get_balances pf net_down None = Inr []"
  "Bithumb_get_price_by_currency pf net_down coin = Inr 0"
  by (simp_all add: Bithumb_get_balances_def Bithumb_get_price_by_currency_def
      Bithumb_request_def net_down_def fetch_json_def)

lemma upbit_price_degrades:
  "coin \<noteq> ''KRW'' \<Longrightarrow> Upbit_get_price_by_currency net_down coin = Inr JNull"
  by (simp add: Upbit_get_price_by_currency_def net_down_def fetch_json_def)

text \<open>
  Claim C8 on the Coinone and Upbit clients, with every request failing at the transport:
  the price lookup of the Coinone client turns the failure into the error string of
  \<open>_make_request\<close> and then calls \<open>.get\<close> on that string, so \<open>AttributeError\<close> leaves the
  function; the balance retrievals of the Coinone and Upbit clients let the
  \<open>RequestException\<close> pass. None of them is the OAuth2 grant.
\<close>

theorem transport_failure_raises:
  "Coinone_get_price_by_currency pf net_down (JStr ''BTC'') = Inl AttributeError \<and>
   Coinone_get_balances pf net_down cs = Inl (RequestException ''Connection refused'') \<and>
   Coinone_get_nonzero_balances pf net_down = Inl (RequestException ''Connection refused'') \<and>
   Upbit_get_balances pf net_down ucs = Inl (RequestException ''Connection refused'')"
  by (simp add: Coinone_get_price_by_currency_def lower_BTC make_request_def net_down_def
      fetch_json_def Coinone_get_balances_def Coinone_get_nonzero_balances_def
      Coinone_post_request_def Upbit_get_balances_def)

end
